theory Spec2Isabelle
  imports Main "HOL-Library.Word" "HOL-Library.Signed_Division"
begin

unbundle bit_operations_syntax

section \<open>Machine types and constants of hid-switch2\<close>

type_synonym u8 = "8 word"
type_synonym u16 = "16 word"
type_synonym u32 = "32 word"

text \<open>A C pointer to bytes (\<open>const uint8_t *\<close>): the memory readable through it, by
  offset. \<open>&p[n]\<close> is \<open>ptr_add p n\<close>.\<close>

type_synonym bytes = "nat \<Rightarrow> u8"

definition ptr_add :: "bytes \<Rightarrow> nat \<Rightarrow> bytes" where
  "ptr_add p n = (\<lambda>i. p (i + n))"

text \<open>A buffer holding the given bytes, with zero bytes behind them; used to write
  concrete inputs.\<close>

definition buffer_of :: "u8 list \<Rightarrow> bytes" where
  "buffer_of xs = (\<lambda>i. if i < length xs then xs ! i else 0)"

definition NS2_TRIGGER_RANGE :: int where "NS2_TRIGGER_RANGE = 4095"
definition NS2_AXIS_MIN :: int where "NS2_AXIS_MIN = - 32768"
definition NS2_AXIS_MAX :: int where "NS2_AXIS_MAX = 32767"

text \<open>The kernel's \<open>clamp(val, lo, hi)\<close>: \<open>min(max(val, lo), hi)\<close>.\<close>

definition clamp :: "int \<Rightarrow> int \<Rightarrow> int \<Rightarrow> int" where
  "clamp val lo hi = min (max val lo) hi"

text \<open>C's \<open>int\<close> is 32 bits wide; the kernel is built with wrapping signed arithmetic.
  \<open>wrap32\<close> brings a mathematical result back into the range of \<open>int\<close>.\<close>

definition wrap32 :: "int \<Rightarrow> int" where
  "wrap32 v = (v + 2 ^ 31) mod 2 ^ 32 - 2 ^ 31"

definition fits_int32 :: "int \<Rightarrow> bool" where
  "fits_int32 v = (- (2 ^ 31) \<le> v \<and> v < 2 ^ 31)"

text \<open>What a computation can end with instead of a value: an integer division by zero,
  which C leaves undefined and an x86 processor answers with its divide-error trap.\<close>

datatype fault = DivideError

section \<open>Calibration data\<close>

record switch2_axis_calibration =
  neutral :: u16
  negative :: u16
  positive :: u16

record switch2_stick_calibration =
  stick_x :: switch2_axis_calibration
  stick_y :: switch2_axis_calibration

section \<open>Report decoder: axis and trigger transforms\<close>

text \<open>\<open>switch2_report_axis\<close>: \<open>calib\<close> is a pointer (\<open>None\<close> is NULL), \<open>value\<close> an
  \<open>int\<close>. The divisors are nonzero where they are used, and positive, so the division
  cannot trap; it truncates towards zero (\<open>sdiv\<close>). The result is the event
  (axis code, reported value).\<close>

definition calib_usable :: "switch2_axis_calibration option \<Rightarrow> bool" where
  "calib_usable calib =
     (case calib of None \<Rightarrow> False
      | Some c \<Rightarrow> neutral c \<noteq> 0 \<and> negative c \<noteq> 0 \<and> positive c \<noteq> 0)"

definition switch2_report_axis ::
    "switch2_axis_calibration option \<Rightarrow> nat \<Rightarrow> int \<Rightarrow> bool \<Rightarrow> nat \<times> int" where
  "switch2_report_axis calib axis val negate =
     (let v1 =
        (if calib_usable calib then
           (let c = the calib;
                a = wrap32 (val - uint (neutral c));
                b = wrap32 (a * (NS2_AXIS_MAX + 1))
            in if b < 0 then b sdiv uint (negative c) else b sdiv uint (positive c))
         else wrap32 (wrap32 (val - 2048) * 16));
          v2 = (if negate then wrap32 (- v1) else v1)
      in (axis, clamp v2 NS2_AXIS_MIN NS2_AXIS_MAX))"

text \<open>\<open>switch2_report_trigger\<close>: \<open>zero\<close> and \<open>data\<close> are bytes, promoted to \<open>int\<close>.
  The division has no test of its divisor: with \<open>zero = 232\<close> it divides by zero.\<close>

definition switch2_report_trigger :: "u8 \<Rightarrow> nat \<Rightarrow> u8 \<Rightarrow> fault + nat \<times> int" where
  "switch2_report_trigger zero abs_code data =
     (if 232 - uint zero = 0 then Inl DivideError
      else Inr (abs_code,
        clamp (((NS2_TRIGGER_RANGE + 1) * (uint data - uint zero)) sdiv (232 - uint zero))
          0 NS2_TRIGGER_RANGE))"

text \<open>\<open>switch2_report_stick\<close>: the two 12-bit samples of a stick, X as read and Y
  negated.\<close>

definition switch2_report_stick ::
    "switch2_stick_calibration \<Rightarrow> nat \<Rightarrow> nat \<Rightarrow> bytes \<Rightarrow> (nat \<times> int) list" where
  "switch2_report_stick calib x y data =
     [switch2_report_axis (Some (stick_x calib)) x
        (uint (data 0) OR push_bit 8 (uint (data 1 AND 0x0F))) False,
      switch2_report_axis (Some (stick_y calib)) y
        (uint (drop_bit 4 (data 1)) OR push_bit 4 (uint (data 2))) True]"

section \<open>Calibration codec\<close>

definition UNCALIBRATED :: "u8 list" where
  "UNCALIBRATED = [0xFF, 0xFF, 0xFF, 0xFF, 0xFF, 0xFF, 0xFF, 0xFF, 0xFF]"

text \<open>\<open>memcmp(a, data, n) == 0\<close> against a constant array.\<close>

definition memcmp_eq :: "u8 list \<Rightarrow> bytes \<Rightarrow> bool" where
  "memcmp_eq a data = (map data [0..<length a] = a)"

text \<open>\<open>switch2_parse_stick_calibration\<close> writes through \<open>calib\<close> and returns whether it
  did: the result is the flag and the calibration behind the pointer afterwards. When it
  returns true it has assigned all six fields.\<close>

definition switch2_parse_stick_calibration ::
    "switch2_stick_calibration \<Rightarrow> bytes \<Rightarrow> bool \<times> switch2_stick_calibration" where
  "switch2_parse_stick_calibration calib data =
     (if memcmp_eq UNCALIBRATED data then (False, calib)
      else (True,
        \<lparr>stick_x =
           \<lparr>neutral = ucast (data 0) OR push_bit 8 (ucast (data 1 AND 0x0F)),
            negative = ucast (data 6) OR push_bit 8 (ucast (data 7 AND 0x0F)),
            positive = ucast (data 3) OR push_bit 8 (ucast (data 4 AND 0x0F))\<rparr>,
         stick_y =
           \<lparr>neutral = ucast (drop_bit 4 (data 1)) OR push_bit 4 (ucast (data 2)),
            negative = ucast (drop_bit 4 (data 7)) OR push_bit 4 (ucast (data 8)),
            positive = ucast (drop_bit 4 (data 4)) OR push_bit 4 (ucast (data 5))\<rparr>\<rparr>))"

text \<open>The packing the specification describes, used to state the round trip: two 12-bit
  values in three bytes, the first value in the low 12 bits; a block is the pairs
  (x-neutral, y-neutral), (x-positive, y-positive), (x-negative, y-negative).\<close>

definition spec_pack_pair :: "u16 \<Rightarrow> u16 \<Rightarrow> u8 list" where
  "spec_pack_pair a b =
     [ucast a, ucast (drop_bit 8 a) OR push_bit 4 (ucast b), ucast (drop_bit 4 b)]"

definition spec_pack_stick :: "switch2_stick_calibration \<Rightarrow> u8 list" where
  "spec_pack_stick c =
     spec_pack_pair (neutral (stick_x c)) (neutral (stick_y c)) @
     spec_pack_pair (positive (stick_x c)) (positive (stick_y c)) @
     spec_pack_pair (negative (stick_x c)) (negative (stick_y c))"

definition is_12bit :: "switch2_stick_calibration \<Rightarrow> bool" where
  "is_12bit c =
     (unat (neutral (stick_x c)) < 4096 \<and> unat (negative (stick_x c)) < 4096 \<and>
      unat (positive (stick_x c)) < 4096 \<and> unat (neutral (stick_y c)) < 4096 \<and>
      unat (negative (stick_y c)) < 4096 \<and> unat (positive (stick_y c)) < 4096)"

section \<open>Controller session\<close>

definition EINVAL :: int where "EINVAL = 22"
definition ENOMEM :: int where "ENOMEM = 12"
definition ENOTCONN :: int where "ENOTCONN = 107"
definition ENODEV :: int where "ENODEV = 19"

definition NS2_FLASH_ADDR_SERIAL :: u32 where "NS2_FLASH_ADDR_SERIAL = 0x13002"
definition NS2_FLASH_ADDR_FACTORY_PRIMARY_CALIB :: u32 where
  "NS2_FLASH_ADDR_FACTORY_PRIMARY_CALIB = 0x130a8"
definition NS2_FLASH_ADDR_FACTORY_SECONDARY_CALIB :: u32 where
  "NS2_FLASH_ADDR_FACTORY_SECONDARY_CALIB = 0x130e8"
definition NS2_FLASH_ADDR_FACTORY_TRIGGER_CALIB :: u32 where
  "NS2_FLASH_ADDR_FACTORY_TRIGGER_CALIB = 0x13140"
definition NS2_FLASH_ADDR_USER_PRIMARY_CALIB :: u32 where
  "NS2_FLASH_ADDR_USER_PRIMARY_CALIB = 0x1fc040"
definition NS2_FLASH_ADDR_USER_SECONDARY_CALIB :: u32 where
  "NS2_FLASH_ADDR_USER_SECONDARY_CALIB = 0x1fc080"

definition NS2_FLASH_SIZE_SERIAL :: u8 where "NS2_FLASH_SIZE_SERIAL = 0x10"
definition NS2_FLASH_SIZE_FACTORY_AXIS_CALIB :: u8 where "NS2_FLASH_SIZE_FACTORY_AXIS_CALIB = 9"
definition NS2_FLASH_SIZE_FACTORY_TRIGGER_CALIB :: u8 where
  "NS2_FLASH_SIZE_FACTORY_TRIGGER_CALIB = 2"
definition NS2_FLASH_SIZE_USER_AXIS_CALIB :: u8 where "NS2_FLASH_SIZE_USER_AXIS_CALIB = 11"

definition NS2_USER_CALIB_MAGIC :: u16 where "NS2_USER_CALIB_MAGIC = 0xa1b2"

definition NS2_FEATURE_BUTTONS :: u32 where "NS2_FEATURE_BUTTONS = 0x01"
definition NS2_FEATURE_ANALOG :: u32 where "NS2_FEATURE_ANALOG = 0x02"
definition NS2_FEATURE_IMU :: u32 where "NS2_FEATURE_IMU = 0x04"
definition NS2_FEATURE_RUMBLE :: u32 where "NS2_FEATURE_RUMBLE = 0x20"

text \<open>\<open>enum switch2_cmd\<close> and the subcommands, as the bytes of the header.\<close>

definition NS2_CMD_NFC :: u8 where "NS2_CMD_NFC = 0x01"
definition NS2_CMD_FLASH :: u8 where "NS2_CMD_FLASH = 0x02"
definition NS2_CMD_INIT :: u8 where "NS2_CMD_INIT = 0x03"
definition NS2_CMD_GRIP :: u8 where "NS2_CMD_GRIP = 0x08"
definition NS2_CMD_LED :: u8 where "NS2_CMD_LED = 0x09"
definition NS2_CMD_FEATSEL :: u8 where "NS2_CMD_FEATSEL = 0x0c"
definition NS2_CMD_FW_INFO :: u8 where "NS2_CMD_FW_INFO = 0x10"

definition NS2_SUBCMD_FLASH_READ :: u8 where "NS2_SUBCMD_FLASH_READ = 0x04"
definition NS2_SUBCMD_INIT_USB :: u8 where "NS2_SUBCMD_INIT_USB = 0x0d"
definition NS2_SUBCMD_FEATSEL_SET_MASK :: u8 where "NS2_SUBCMD_FEATSEL_SET_MASK = 0x02"
definition NS2_SUBCMD_FEATSEL_ENABLE :: u8 where "NS2_SUBCMD_FEATSEL_ENABLE = 0x04"
definition NS2_SUBCMD_GRIP_ENABLE_BUTTONS :: u8 where "NS2_SUBCMD_GRIP_ENABLE_BUTTONS = 0x02"
definition NS2_SUBCMD_LED_PATTERN :: u8 where "NS2_SUBCMD_LED_PATTERN = 0x07"
definition NS2_SUBCMD_FW_INFO_GET :: u8 where "NS2_SUBCMD_FW_INFO_GET = 0x01"

text \<open>\<open>enum switch2_ctlr_type\<close>; the field is assigned from a byte of the firmware
  reply, so it can hold any value 0..255.\<close>

definition NS2_CTLR_TYPE_JCL :: nat where "NS2_CTLR_TYPE_JCL = 0"
definition NS2_CTLR_TYPE_JCR :: nat where "NS2_CTLR_TYPE_JCR = 1"
definition NS2_CTLR_TYPE_PRO :: nat where "NS2_CTLR_TYPE_PRO = 2"
definition NS2_CTLR_TYPE_GC :: nat where "NS2_CTLR_TYPE_GC = 3"

definition switch2_ctlr_is_joycon :: "nat \<Rightarrow> bool" where
  "switch2_ctlr_is_joycon t = (t = NS2_CTLR_TYPE_JCL \<or> t = NS2_CTLR_TYPE_JCR)"

text \<open>\<open>enum switch2_init_step\<close>, with CONFIG_SWITCH2_FF defined (the Makefile sets it).
  The code increments the field and compares it, so it is a number.\<close>

definition NS2_INIT_STARTING :: nat where "NS2_INIT_STARTING = 0"
definition NS2_INIT_READ_SERIAL :: nat where "NS2_INIT_READ_SERIAL = 1"
definition NS2_INIT_READ_FACTORY_PRIMARY_CALIB :: nat where
  "NS2_INIT_READ_FACTORY_PRIMARY_CALIB = 2"
definition NS2_INIT_READ_FACTORY_SECONDARY_CALIB :: nat where
  "NS2_INIT_READ_FACTORY_SECONDARY_CALIB = 3"
definition NS2_INIT_READ_FACTORY_TRIGGER_CALIB :: nat where
  "NS2_INIT_READ_FACTORY_TRIGGER_CALIB = 4"
definition NS2_INIT_READ_USER_PRIMARY_CALIB :: nat where "NS2_INIT_READ_USER_PRIMARY_CALIB = 5"
definition NS2_INIT_READ_USER_SECONDARY_CALIB :: nat where
  "NS2_INIT_READ_USER_SECONDARY_CALIB = 6"
definition NS2_INIT_SET_FEATURE_MASK :: nat where "NS2_INIT_SET_FEATURE_MASK = 7"
definition NS2_INIT_ENABLE_FEATURES :: nat where "NS2_INIT_ENABLE_FEATURES = 8"
definition NS2_INIT_GET_FIRMWARE_INFO :: nat where "NS2_INIT_GET_FIRMWARE_INFO = 9"
definition NS2_INIT_ENABLE_RUMBLE :: nat where "NS2_INIT_ENABLE_RUMBLE = 10"
definition NS2_INIT_GRIP_BUTTONS :: nat where "NS2_INIT_GRIP_BUTTONS = 11"
definition NS2_INIT_SET_PLAYER_LEDS :: nat where "NS2_INIT_SET_PLAYER_LEDS = 12"
definition NS2_INIT_INPUT :: nat where "NS2_INIT_INPUT = 13"
definition NS2_INIT_DONE :: nat where "NS2_INIT_DONE = 14"

text \<open>\<open>struct switch2_version_info\<close>. The \<open>int8_t\<close> members are 8-bit words too;
  \<open>sint\<close> reads them as signed.\<close>

record switch2_version_info =
  major :: u8
  minor :: u8
  patch :: u8
  ver_ctlr_type :: u8
  unk :: u32
  dsp_major :: u8
  dsp_minor :: u8
  dsp_patch :: u8
  dsp_type :: u8

text \<open>An outbound command as handed to the transport: command, subcommand, message.\<close>

type_synonym sent_command = "u8 \<times> u8 \<times> u8 list"

text \<open>\<open>struct switch2_cfg_intf\<close>: the command path. \<open>send_command\<close> is the transport's
  function; all the engine sees of it is the status it returns.\<close>

record switch2_cfg_intf =
  send_command :: "sent_command \<Rightarrow> int"

text \<open>The rumble state. \<open>struct switch2_hd_rumble\<close> has four 10-bit bit-fields and is
  packed, five bytes; \<open>struct switch2_erm_rumble\<close> has two 16-bit members.\<close>

record switch2_hd_rumble =
  hi_freq :: "10 word"
  hi_amp :: "10 word"
  lo_freq :: "10 word"
  lo_amp :: "10 word"

record switch2_erm_rumble =
  error :: u16
  amplitude :: u16

text \<open>In \<open>struct switch2_controller\<close> the two are the members \<open>hd\<close> and \<open>sd\<close> of the
  union \<open>rumble\<close>: they share their storage. The storage is kept as it lies in memory,
  the six bytes of the union as one 48-bit little-endian word, and a member is read out
  of it and stored into it. Bit-fields are allocated from the least significant bit, as
  the compiler does on a little-endian machine: \<open>hi_freq\<close> is bits 0..9, \<open>hi_amp\<close> bits
  10..19, \<open>lo_freq\<close> bits 20..29, \<open>lo_amp\<close> bits 30..39; \<open>error\<close> is bytes 0 and 1 (bits
  0..15), \<open>amplitude\<close> bytes 2 and 3 (bits 16..31).\<close>

type_synonym rumble_union = "48 word"

text \<open>A store to a member changes the \<open>n\<close> bits from bit \<open>off\<close> and no other.\<close>

definition store_field :: "nat \<Rightarrow> nat \<Rightarrow> rumble_union \<Rightarrow> rumble_union \<Rightarrow> rumble_union" where
  "store_field off n w v = (w AND NOT (push_bit off (mask n))) OR push_bit off (take_bit n v)"

definition union_hd :: "rumble_union \<Rightarrow> switch2_hd_rumble" where
  "union_hd w = \<lparr>hi_freq = ucast w, hi_amp = ucast (drop_bit 10 w),
     lo_freq = ucast (drop_bit 20 w), lo_amp = ucast (drop_bit 30 w)\<rparr>"

definition union_sd :: "rumble_union \<Rightarrow> switch2_erm_rumble" where
  "union_sd w = \<lparr>error = ucast w, amplitude = ucast (drop_bit 16 w)\<rparr>"


definition set_hi_amp :: "10 word \<Rightarrow> rumble_union \<Rightarrow> rumble_union" where
  "set_hi_amp v w = store_field 10 10 w (ucast v)"


definition set_lo_amp :: "10 word \<Rightarrow> rumble_union \<Rightarrow> rumble_union" where
  "set_lo_amp v w = store_field 30 10 w (ucast v)"

definition set_error :: "u16 \<Rightarrow> rumble_union \<Rightarrow> rumble_union" where
  "set_error v w = store_field 0 16 w (ucast v)"

definition set_amplitude :: "u16 \<Rightarrow> rumble_union \<Rightarrow> rumble_union" where
  "set_amplitude v w = store_field 16 16 w (ucast v)"

text \<open>\<open>struct switch2_controller\<close>, without the members for the registry and the
  locks (\<open>phys\<close>, \<open>entry\<close>, \<open>lock\<close>, \<open>rumble_lock\<close>). \<open>hdev\<close> and \<open>input\<close> are
  pointers the engine only tests or sets, kept as "bound or not"; \<open>stick_calib\<close> is
  the array of two, kept as two fields. \<open>rumble\<close> is the storage of the union;
  \<open>rumble_work_pending\<close> is the queued state of the delayed work \<open>rumble_work\<close>.\<close>

record switch2_controller =
  hdev :: bool
  cfg :: "switch2_cfg_intf option"
  ctlr_type :: nat
  init_step :: nat
  input :: bool
  serial :: "u8 list"
  version :: switch2_version_info
  stick_calib0 :: switch2_stick_calibration
  stick_calib1 :: switch2_stick_calibration
  lt_zero :: u8
  rt_zero :: u8
  player_id :: u32
  rumble_seq :: u8
  rumble :: rumble_union
  last_rumble_work :: "64 word"
  rumble_work_pending :: bool

text \<open>A session as \<open>switch2_get_controller\<close> creates it: \<open>kzalloc\<close>, every byte zero.\<close>

definition zero_axis :: switch2_axis_calibration where
  "zero_axis = \<lparr>neutral = 0, negative = 0, positive = 0\<rparr>"

definition zero_stick :: switch2_stick_calibration where
  "zero_stick = \<lparr>stick_x = zero_axis, stick_y = zero_axis\<rparr>"

definition zero_version :: switch2_version_info where
  "zero_version = \<lparr>major = 0, minor = 0, patch = 0, ver_ctlr_type = 0, unk = 0,
     dsp_major = 0, dsp_minor = 0, dsp_patch = 0, dsp_type = 0\<rparr>"

definition new_controller :: switch2_controller where
  "new_controller = \<lparr>hdev = False, cfg = None, ctlr_type = 0, init_step = 0, input = False,
     serial = replicate 17 0, version = zero_version, stick_calib0 = zero_stick,
     stick_calib1 = zero_stick, lt_zero = 0, rt_zero = 0, player_id = 0, rumble_seq = 0,
     rumble = 0, last_rumble_work = 0, rumble_work_pending = False\<rparr>"

text \<open>\<open>ns2->rumble.hd\<close> and \<open>ns2->rumble.sd\<close>: the two readings of the one storage.\<close>

definition rumble_hd :: "switch2_controller \<Rightarrow> switch2_hd_rumble" where
  "rumble_hd ns2 = union_hd (rumble ns2)"

definition rumble_sd :: "switch2_controller \<Rightarrow> switch2_erm_rumble" where
  "rumble_sd ns2 = union_sd (rumble ns2)"

text \<open>Little-endian loads and stores.\<close>

definition le16_to_cpu :: "bytes \<Rightarrow> u16" where
  "le16_to_cpu p = ucast (p 0) OR push_bit 8 (ucast (p 1))"

definition le32_to_cpu :: "bytes \<Rightarrow> u32" where
  "le32_to_cpu p = ucast (p 0) OR push_bit 8 (ucast (p 1)) OR push_bit 16 (ucast (p 2)) OR
     push_bit 24 (ucast (p 3))"

definition cpu_to_le32 :: "u32 \<Rightarrow> u8 list" where
  "cpu_to_le32 v = [ucast v, ucast (drop_bit 8 v), ucast (drop_bit 16 v), ucast (drop_bit 24 v)]"

text \<open>\<open>memcpy(dst, src, n)\<close> into the front of an array kept as a list.\<close>

definition memcpy :: "u8 list \<Rightarrow> bytes \<Rightarrow> nat \<Rightarrow> u8 list" where
  "memcpy dst src n = map src [0..<n] @ drop n dst"

text \<open>\<open>switch2_handle_flash_read\<close>.\<close>

definition switch2_handle_flash_read ::
    "switch2_controller \<Rightarrow> u8 \<Rightarrow> u32 \<Rightarrow> bytes \<Rightarrow> switch2_controller" where
  "switch2_handle_flash_read ns2 sz address data =
     (if address = NS2_FLASH_ADDR_SERIAL then
        (if sz \<noteq> NS2_FLASH_SIZE_SERIAL then ns2
         else ns2\<lparr>serial := memcpy (serial ns2) data (unat sz)\<rparr>)
      else if address = NS2_FLASH_ADDR_FACTORY_PRIMARY_CALIB then
        (if sz \<noteq> NS2_FLASH_SIZE_FACTORY_AXIS_CALIB then ns2
         else ns2\<lparr>stick_calib0 :=
                snd (switch2_parse_stick_calibration (stick_calib0 ns2) data)\<rparr>)
      else if address = NS2_FLASH_ADDR_FACTORY_SECONDARY_CALIB then
        (if sz \<noteq> NS2_FLASH_SIZE_FACTORY_AXIS_CALIB then ns2
         else ns2\<lparr>stick_calib1 :=
                snd (switch2_parse_stick_calibration (stick_calib1 ns2) data)\<rparr>)
      else if address = NS2_FLASH_ADDR_FACTORY_TRIGGER_CALIB then
        (if sz \<noteq> NS2_FLASH_SIZE_FACTORY_TRIGGER_CALIB then ns2
         else if data 0 \<noteq> 0xFF \<and> data 1 \<noteq> 0xFF
           then ns2\<lparr>lt_zero := data 0, rt_zero := data 1\<rparr>
           else ns2)
      else if address = NS2_FLASH_ADDR_USER_PRIMARY_CALIB then
        (if sz \<noteq> NS2_FLASH_SIZE_USER_AXIS_CALIB then ns2
         else if le16_to_cpu data \<noteq> NS2_USER_CALIB_MAGIC then ns2
         else ns2\<lparr>stick_calib0 :=
                snd (switch2_parse_stick_calibration (stick_calib0 ns2) (ptr_add data 2))\<rparr>)
      else if address = NS2_FLASH_ADDR_USER_SECONDARY_CALIB then
        (if sz \<noteq> NS2_FLASH_SIZE_USER_AXIS_CALIB then ns2
         else if le16_to_cpu data \<noteq> NS2_USER_CALIB_MAGIC then ns2
         else ns2\<lparr>stick_calib1 :=
                snd (switch2_parse_stick_calibration (stick_calib1 ns2) (ptr_add data 2))\<rparr>)
      else ns2)"

section \<open>Initialization state machine\<close>

definition switch2_init_cmd_data :: "u8 list" where
  "switch2_init_cmd_data = [0x01, 0x00, 0xFF, 0xFF, 0xFF, 0xFF, 0xFF, 0xFF]"

definition switch2_one_data :: "u8 list" where
  "switch2_one_data = [0x01, 0x00, 0x00, 0x00]"

definition switch2_zero_data :: "u8 list" where
  "switch2_zero_data = [0x00, 0x00, 0x00, 0x00]"

definition switch2_player_pattern :: "u8 list" where
  "switch2_player_pattern = [0x1, 0x3, 0x7, 0xf, 0x9, 0x5, 0xd, 0x6]"

definition switch2_feature_mask :: "u8 list" where
  "switch2_feature_mask =
     [ucast (NS2_FEATURE_BUTTONS OR NS2_FEATURE_ANALOG OR NS2_FEATURE_IMU OR NS2_FEATURE_RUMBLE),
      0x00, 0x00, 0x00]"

definition NS2_MAX_PLAYER_ID :: u32 where "NS2_MAX_PLAYER_ID = 8"

text \<open>A call through \<open>cfg->send_command\<close>: the status the transport returns, and the
  command as the one thing sent.\<close>

definition do_send ::
    "switch2_cfg_intf \<Rightarrow> sent_command \<Rightarrow> int \<times> sent_command list" where
  "do_send c m = (send_command c m, [m])"

definition switch2_features_enable ::
    "switch2_controller \<Rightarrow> u32 \<Rightarrow> int \<times> sent_command list" where
  "switch2_features_enable ns2 features =
     (case cfg ns2 of None \<Rightarrow> (- ENOTCONN, [])
      | Some c \<Rightarrow> do_send c (NS2_CMD_FEATSEL, NS2_SUBCMD_FEATSEL_ENABLE, cpu_to_le32 features))"

definition switch2_read_flash ::
    "switch2_controller \<Rightarrow> u32 \<Rightarrow> u8 \<Rightarrow> int \<times> sent_command list" where
  "switch2_read_flash ns2 address sz =
     (case cfg ns2 of None \<Rightarrow> (- ENOTCONN, [])
      | Some c \<Rightarrow> do_send c (NS2_CMD_FLASH, NS2_SUBCMD_FLASH_READ,
          [sz, 0x7e, 0, 0] @ cpu_to_le32 address))"

definition switch2_set_player_id ::
    "switch2_controller \<Rightarrow> u32 \<Rightarrow> int \<times> sent_command list" where
  "switch2_set_player_id ns2 pid =
     (let pid' = pid mod NS2_MAX_PLAYER_ID;
          message = [switch2_player_pattern ! unat pid', 0, 0, 0, 0, 0, 0, 0]
      in case cfg ns2 of None \<Rightarrow> (- ENOTCONN, [])
         | Some c \<Rightarrow> do_send c (NS2_CMD_LED, NS2_SUBCMD_LED_PATTERN, message))"

text \<open>What \<open>switch2_init_input\<close> gets from the input subsystem: whether the device
  could be allocated, and the statuses of \<open>input_ff_create_memless\<close> and
  \<open>input_register_device\<close>.\<close>

record input_env =
  alloc_ok :: bool
  ff_create_ret :: int
  register_ret :: int

definition switch2_init_input ::
    "input_env \<Rightarrow> switch2_controller \<Rightarrow> int \<times> switch2_controller" where
  "switch2_init_input env ns2 =
     (if input ns2 then (0, ns2)
      else if \<not> alloc_ok env then (- ENOMEM, ns2)
      else if \<not> (ctlr_type ns2 = NS2_CTLR_TYPE_JCL \<or> ctlr_type ns2 = NS2_CTLR_TYPE_JCR \<or>
                 ctlr_type ns2 = NS2_CTLR_TYPE_GC \<or> ctlr_type ns2 = NS2_CTLR_TYPE_PRO)
        then (- EINVAL, ns2)
      else if ff_create_ret env \<noteq> 0 then (ff_create_ret env, ns2)
      else (register_ret env, ns2\<lparr>input := True\<rparr>))"

text \<open>The \<open>switch\<close> in the loop of \<open>switch2_init_controller\<close>, for the session with
  \<open>init_step\<close> already incremented; \<open>c\<close> is what \<open>ns2->cfg\<close> points to. A case either
  returns from the function (\<open>Some\<close>: the status, the session and the commands sent) or
  breaks out of the \<open>switch\<close> into the next round of the loop (\<open>None\<close>).\<close>

definition init_switch ::
    "input_env \<Rightarrow> switch2_cfg_intf \<Rightarrow> switch2_controller \<Rightarrow>
     (int \<times> switch2_controller \<times> sent_command list) option" where
  "init_switch env c ns2 =
     (let step = init_step ns2;
          ret = (\<lambda>r. Some (fst r, ns2, snd r))
      in if step = NS2_INIT_READ_SERIAL then
           ret (switch2_read_flash ns2 NS2_FLASH_ADDR_SERIAL NS2_FLASH_SIZE_SERIAL)
         else if step = NS2_INIT_GET_FIRMWARE_INFO then
           ret (do_send c (NS2_CMD_FW_INFO, NS2_SUBCMD_FW_INFO_GET, []))
         else if step = NS2_INIT_READ_FACTORY_PRIMARY_CALIB then
           ret (switch2_read_flash ns2 NS2_FLASH_ADDR_FACTORY_PRIMARY_CALIB
                  NS2_FLASH_SIZE_FACTORY_AXIS_CALIB)
         else if step = NS2_INIT_READ_FACTORY_SECONDARY_CALIB then
           (if switch2_ctlr_is_joycon (ctlr_type ns2) then None
            else ret (switch2_read_flash ns2 NS2_FLASH_ADDR_FACTORY_SECONDARY_CALIB
                  NS2_FLASH_SIZE_FACTORY_AXIS_CALIB))
         else if step = NS2_INIT_READ_FACTORY_TRIGGER_CALIB then
           (if ctlr_type ns2 \<noteq> NS2_CTLR_TYPE_GC then None
            else ret (switch2_read_flash ns2 NS2_FLASH_ADDR_FACTORY_TRIGGER_CALIB
                  NS2_FLASH_SIZE_FACTORY_TRIGGER_CALIB))
         else if step = NS2_INIT_READ_USER_PRIMARY_CALIB then
           ret (switch2_read_flash ns2 NS2_FLASH_ADDR_USER_PRIMARY_CALIB
                  NS2_FLASH_SIZE_USER_AXIS_CALIB)
         else if step = NS2_INIT_READ_USER_SECONDARY_CALIB then
           (if switch2_ctlr_is_joycon (ctlr_type ns2) then None
            else ret (switch2_read_flash ns2 NS2_FLASH_ADDR_USER_SECONDARY_CALIB
                  NS2_FLASH_SIZE_USER_AXIS_CALIB))
         else if step = NS2_INIT_SET_FEATURE_MASK then
           ret (do_send c (NS2_CMD_FEATSEL, NS2_SUBCMD_FEATSEL_SET_MASK,
                  switch2_feature_mask))
         else if step = NS2_INIT_ENABLE_FEATURES then
           ret (switch2_features_enable ns2
                  (NS2_FEATURE_BUTTONS OR NS2_FEATURE_ANALOG OR NS2_FEATURE_RUMBLE))
         else if step = NS2_INIT_ENABLE_RUMBLE then
           ret (do_send c (NS2_CMD_NFC, 1, switch2_zero_data))
         else if step = NS2_INIT_GRIP_BUTTONS then
           (if \<not> switch2_ctlr_is_joycon (ctlr_type ns2) then None
            else ret (do_send c (NS2_CMD_GRIP, NS2_SUBCMD_GRIP_ENABLE_BUTTONS,
                  switch2_one_data)))
         else if step = NS2_INIT_SET_PLAYER_LEDS then
           ret (switch2_set_player_id ns2 (player_id ns2))
         else if step = NS2_INIT_INPUT then
           ret (do_send c (NS2_CMD_INIT, NS2_SUBCMD_INIT_USB, switch2_init_cmd_data))
         else if step = NS2_INIT_DONE then
           (if hdev ns2 then
              (let r = switch2_init_input env ns2 in Some (fst r, snd r, []))
            else None)
         else None)"

text \<open>The loop of \<open>switch2_init_controller\<close>, entered with \<open>ns2->cfg\<close> non-NULL: each
  round increments \<open>init_step\<close> and runs the \<open>switch\<close>; after the loop the function
  returns 0.\<close>

function init_loop ::
    "input_env \<Rightarrow> switch2_cfg_intf \<Rightarrow> switch2_controller \<Rightarrow>
     int \<times> switch2_controller \<times> sent_command list" where
  "init_loop env c ns2 =
     (if init_step ns2 < NS2_INIT_DONE then
        (let ns2' = ns2\<lparr>init_step := init_step ns2 + 1\<rparr>
         in case init_switch env c ns2' of
              Some r \<Rightarrow> r
            | None \<Rightarrow> init_loop env c ns2')
      else (0, ns2, []))"
  by pat_completeness auto
termination
  by (relation "measure (\<lambda>(env, c, ns2). NS2_INIT_DONE - init_step ns2)") auto

declare init_loop.simps [simp del]

definition switch2_init_controller ::
    "input_env \<Rightarrow> switch2_controller \<Rightarrow> int \<times> switch2_controller \<times> sent_command list" where
  "switch2_init_controller env ns2 =
     (if init_step ns2 = NS2_INIT_DONE then (0, ns2, [])
      else case cfg ns2 of None \<Rightarrow> (- ENOTCONN, ns2, [])
        | Some c \<Rightarrow> init_loop env c ns2)"

section \<open>Command codec: inbound frames\<close>

text \<open>\<open>memcpy(&ns2->version, message, sizeof(ns2->version))\<close>: the twelve bytes of
  \<open>struct switch2_version_info\<close> (four bytes, a 32-bit word, four bytes) in the order
  of its members.\<close>

definition sizeof_version :: nat where "sizeof_version = 12"

definition version_of_bytes :: "bytes \<Rightarrow> switch2_version_info" where
  "version_of_bytes m = \<lparr>major = m 0, minor = m 1, patch = m 2, ver_ctlr_type = m 3,
     unk = le32_to_cpu (ptr_add m 4), dsp_major = m 8, dsp_minor = m 9, dsp_patch = m 10,
     dsp_type = m 11\<rparr>"

text \<open>\<open>switch2_receive_command\<close>: \<open>message\<close> points to the transfer buffer, \<open>len\<close> is
  the number of bytes received into it. The status of the embedded
  \<open>switch2_init_controller\<close> call is dropped, as in the code.\<close>

definition switch2_receive_command ::
    "input_env \<Rightarrow> switch2_controller \<Rightarrow> bytes \<Rightarrow> nat \<Rightarrow>
     int \<times> switch2_controller \<times> sent_command list" where
  "switch2_receive_command env ns2 message len =
     (if len < 8 then (- EINVAL, ns2, [])
      else
        (let r = (if init_step ns2 < NS2_INIT_DONE then switch2_init_controller env ns2
                  else (0, ns2, []));
             ns2a = fst (snd r);
             sent = snd (snd r);
             command = message 0;
             subcommand = message 3;
             msg = ptr_add message 8
         in if command = NS2_CMD_FLASH then
              (if subcommand = NS2_SUBCMD_FLASH_READ then
                 (if len < 16 then (- EINVAL, ns2a, sent)
                  else
                    (let read_size = msg 0;
                         read_address = le32_to_cpu (ptr_add msg 4)
                     in if len < unat read_size + 16 then (- EINVAL, ns2a, sent)
                        else (0, switch2_handle_flash_read ns2a read_size read_address
                                   (ptr_add msg 8), sent)))
               else (0, ns2a, sent))
            else if command = NS2_CMD_FW_INFO then
              (if subcommand = NS2_SUBCMD_FW_INFO_GET then
                 (if len < sizeof_version then (- EINVAL, ns2a, sent)
                  else (0, ns2a\<lparr>version := version_of_bytes msg,
                                 ctlr_type := unat (ver_ctlr_type (version_of_bytes msg))\<rparr>,
                        sent))
               else (0, ns2a, sent))
            else (0, ns2a, sent)))"

section \<open>Rumble encoder\<close>

text \<open>\<open>enum gc_rumble\<close>, \<open>RUMBLE_MAX\<close>, \<open>U16_MAX\<close> and the two frequencies.\<close>

definition GC_RUMBLE_OFF :: u8 where "GC_RUMBLE_OFF = 0"
definition GC_RUMBLE_ON :: u8 where "GC_RUMBLE_ON = 1"
definition GC_RUMBLE_STOP :: u8 where "GC_RUMBLE_STOP = 2"
definition RUMBLE_MAX :: u32 where "RUMBLE_MAX = 450"
definition U16_MAX :: u16 where "U16_MAX = 0xFFFF"

text \<open>\<open>switch2_encode_rumble\<close>: the five bytes written at \<open>buffer\<close>. The fields are
  promoted to \<open>int\<close>, shifted, and cut to a byte by the store.\<close>

definition switch2_encode_rumble :: "switch2_hd_rumble \<Rightarrow> u8 list" where
  "switch2_encode_rumble r =
     (let hf = (ucast (hi_freq r) :: u32); ha = (ucast (hi_amp r) :: u32);
          lf = (ucast (lo_freq r) :: u32); la = (ucast (lo_amp r) :: u32)
      in [ucast hf,
          ucast (drop_bit 8 hf OR push_bit 2 ha),
          ucast (drop_bit 6 ha OR push_bit 4 lf),
          ucast (drop_bit 4 lf OR push_bit 6 la),
          ucast (drop_bit 2 la)])"

text \<open>Writing a run of bytes into the buffer at an offset.\<close>

fun store_bytes :: "u8 list \<Rightarrow> nat \<Rightarrow> u8 list \<Rightarrow> u8 list" where
  "store_bytes buf off [] = buf"
| "store_bytes buf off (b # bs) = store_bytes (buf[off := b]) (Suc off) bs"

text \<open>\<open>switch2_play_effect\<close> for an effect of type FF_RUMBLE with the given magnitudes
  (any other type returns at once and is not an intensity request). The products are
  computed in \<open>unsigned int\<close>. A GameCube controller gets \<open>rumble.sd.amplitude\<close>
  stored, any other type \<open>rumble.hd.hi_amp\<close> and then \<open>rumble.hd.lo_amp\<close>; each store
  goes into the shared storage. \<open>schedule_delayed_work\<close> queues the work unless it is
  queued already.\<close>

definition switch2_play_effect ::
    "switch2_controller \<Rightarrow> u16 \<Rightarrow> u16 \<Rightarrow> switch2_controller" where
  "switch2_play_effect ns2 strong_magnitude weak_magnitude =
     (let ns2' =
        (if ctlr_type ns2 = NS2_CTLR_TYPE_GC then
           ns2\<lparr>rumble := set_amplitude (max strong_magnitude (drop_bit 1 weak_magnitude))
                            (rumble ns2)\<rparr>
         else
           ns2\<lparr>rumble :=
                 set_lo_amp (ucast (drop_bit 16 (ucast strong_magnitude * RUMBLE_MAX)))
                   (set_hi_amp (ucast (drop_bit 16 (ucast weak_magnitude * RUMBLE_MAX)))
                      (rumble ns2))\<rparr>)
      in ns2'\<lparr>rumble_work_pending := True\<rparr>)"

text \<open>\<open>switch2_rumble_work\<close>, the body of the delayed work. \<open>current_ms\<close> is the clock
  it reads, \<open>buffer_ok\<close> whether \<open>kzalloc\<close> gave it a buffer, \<open>interval\<close> is
  \<open>msecs_to_jiffies(4)\<close>. For a GameCube controller it reads the storage as
  \<open>rumble.sd\<close> and stores \<open>rumble.sd.error\<close>; for any other type it reads it as
  \<open>rumble.hd\<close>. The result is the session and the output report handed to
  \<open>hid_hw_output_report\<close>, if one was.\<close>

definition switch2_rumble_work ::
    "64 word \<Rightarrow> switch2_controller \<Rightarrow> 64 word \<Rightarrow> bool \<Rightarrow>
     switch2_controller \<times> u8 list option" where
  "switch2_rumble_work interval ns2 current_ms buffer_ok =
     (if \<not> buffer_ok then (ns2, None)
      else
        (let buffer0 = (replicate 64 0)[1 := 0x50 OR rumble_seq ns2];
             r =
               (if ctlr_type ns2 = NS2_CTLR_TYPE_GC then
                  (let sd = rumble_sd ns2; b = buffer0[0 := 3]
                   in if amplitude sd = 0 then
                        (b[2 := GC_RUMBLE_STOP], ns2\<lparr>rumble := set_error 0 (rumble ns2)\<rparr>,
                         False)
                      else if error sd < amplitude sd then
                        (b[2 := GC_RUMBLE_ON],
                         ns2\<lparr>rumble := set_error (error sd + (U16_MAX - amplitude sd))
                                          (rumble ns2)\<rparr>,
                         True)
                      else
                        (b[2 := GC_RUMBLE_OFF],
                         ns2\<lparr>rumble := set_error (error sd - amplitude sd) (rumble ns2)\<rparr>,
                         True))
                else
                  (let hd = rumble_hd ns2;
                       b1 = store_bytes (buffer0[0 := 1]) 2 (switch2_encode_rumble hd);
                       b2 = (if ctlr_type ns2 = NS2_CTLR_TYPE_PRO then
                               store_bytes (b1[0 := 2, 0x11 := 0x50 OR rumble_seq ns2]) 0x12
                                 (switch2_encode_rumble hd)
                             else b1)
                   in (b2, ns2, hi_amp hd \<noteq> 0 \<or> lo_amp hd \<noteq> 0)));
             buffer = fst r;
             active = snd (snd r);
             ns2a = (fst (snd r))\<lparr>rumble_seq := (rumble_seq (fst (snd r)) + 1) AND 0xF\<rparr>;
             ns2b =
               (if active then
                  (let last = (if last_rumble_work ns2a = 0 then current_ms
                               else last_rumble_work ns2a + interval)
                   in ns2a\<lparr>last_rumble_work := last, rumble_work_pending := True\<rparr>)
                else ns2a\<lparr>last_rumble_work := 0\<rparr>)
         in if \<not> hdev ns2b then (ns2b\<lparr>rumble_work_pending := False\<rparr>, None)
            else (ns2b, Some buffer)))"

text \<open>The encoder as it is driven: an intensity request from the input layer, or the
  timer of the delayed work coming due. A queued work is taken off the queue and run;
  with nothing queued the timer does nothing.\<close>

datatype rumble_event = SetIntensity u16 u16 | Tick "64 word" bool

fun rumble_step ::
    "64 word \<Rightarrow> switch2_controller \<Rightarrow> rumble_event \<Rightarrow> switch2_controller \<times> u8 list list" where
  "rumble_step interval ns2 (SetIntensity strong weak) =
     (switch2_play_effect ns2 strong weak, [])"
| "rumble_step interval ns2 (Tick current_ms buffer_ok) =
     (if rumble_work_pending ns2 then
        (let r = switch2_rumble_work interval (ns2\<lparr>rumble_work_pending := False\<rparr>)
                   current_ms buffer_ok
         in (fst r, case snd r of None \<Rightarrow> [] | Some p \<Rightarrow> [p]))
      else (ns2, []))"

fun rumble_run ::
    "64 word \<Rightarrow> switch2_controller \<Rightarrow> rumble_event list \<Rightarrow>
     switch2_controller \<times> u8 list list" where
  "rumble_run interval ns2 [] = (ns2, [])"
| "rumble_run interval ns2 (e # es) =
     (let r = rumble_step interval ns2 e; r' = rumble_run interval (fst r) es
      in (fst r', snd r @ snd r'))"



section \<open>Binding the interfaces\<close>










text \<open>The six values whose packing is the sentinel block: every value \<open>0xFFF\<close>.\<close>

definition uncalibrated_stick :: switch2_stick_calibration where
  "uncalibrated_stick =
     \<lparr>stick_x = \<lparr>neutral = 0xFFF, negative = 0xFFF, positive = 0xFFF\<rparr>,
      stick_y = \<lparr>neutral = 0xFFF, negative = 0xFFF, positive = 0xFFF\<rparr>\<rparr>"

text \<open>A sequence of calls of \<open>switch2_init_controller\<close>, each with what the input
  subsystem answers during it; the session after the last call.\<close>

fun init_controller_calls :: "input_env list \<Rightarrow> switch2_controller \<Rightarrow> switch2_controller" where
  "init_controller_calls [] ns2 = ns2"
| "init_controller_calls (env # envs) ns2 =
     init_controller_calls envs (fst (snd (switch2_init_controller env ns2)))"

text \<open>The session fields that hold what the device reported: serial, version,
  controller type, stick calibrations and trigger zeros.\<close>

definition stored_data ::
    "switch2_controller \<Rightarrow>
     u8 list \<times> switch2_version_info \<times> nat \<times> switch2_stick_calibration \<times>
     switch2_stick_calibration \<times> u8 \<times> u8" where
  "stored_data ns2 = (serial ns2, version ns2, ctlr_type ns2, stick_calib0 ns2,
     stick_calib1 ns2, lt_zero ns2, rt_zero ns2)"

text \<open>The session a frame meets after \<open>switch2_receive_command\<close> has kicked the
  initialization.\<close>

definition kicked :: "input_env \<Rightarrow> switch2_controller \<Rightarrow> switch2_controller" where
  "kicked env ns2 =
     (if init_step ns2 < NS2_INIT_DONE then fst (snd (switch2_init_controller env ns2))
      else ns2)"

text \<open>An axis calibration is all zero or all nonzero.\<close>

definition calib_all_or_none :: "switch2_axis_calibration \<Rightarrow> bool" where
  "calib_all_or_none c =
     ((neutral c = 0 \<and> negative c = 0 \<and> positive c = 0) \<or>
      (neutral c \<noteq> 0 \<and> negative c \<noteq> 0 \<and> positive c \<noteq> 0))"

text \<open>A new session with both paths attached, over a transport that accepts every
  command.\<close>

definition attached_controller :: switch2_controller where
  "attached_controller =
     new_controller\<lparr>hdev := True, cfg := Some \<lparr>send_command = (\<lambda>m. 0)\<rparr>\<rparr>"

section \<open>Arithmetic and word facts\<close>

lemma wrap32_id: "fits_int32 v \<Longrightarrow> wrap32 v = v"
  by (simp add: wrap32_def fits_int32_def)

lemma abs_div_abs_bounds: "0 \<le> \<bar>a::int\<bar> div \<bar>d\<bar> \<and> \<bar>a\<bar> div \<bar>d\<bar> \<le> \<bar>a\<bar>"
proof (cases "d = 0")
  case True
  then show ?thesis by simp
next
  case False
  then have "0 < \<bar>d\<bar>" by simp
  then show ?thesis
    by (cases "a = 0") (simp_all add: div_int_pos_iff int_div_le_self)
qed

lemma abs_sdiv_le: "\<bar>(a::int) sdiv d\<bar> \<le> \<bar>a\<bar>"
proof -
  have "\<bar>a sdiv d\<bar> = \<bar>sgn a\<bar> * \<bar>sgn d\<bar> * (\<bar>a\<bar> div \<bar>d\<bar>)"
    using abs_div_abs_bounds [of a d] by (simp add: signed_divide_int_def abs_mult)
  also have "\<dots> \<le> \<bar>a\<bar> div \<bar>d\<bar>"
    using abs_div_abs_bounds [of a d] by (cases "a = 0"; cases "d = 0"; simp add: abs_sgn_eq)
  also have "\<dots> \<le> \<bar>a\<bar>"
    using abs_div_abs_bounds [of a d] by simp
  finally show ?thesis .
qed

lemma clamp_range: "lo \<le> hi \<Longrightarrow> lo \<le> clamp v lo hi \<and> clamp v lo hi \<le> hi"
  by (simp add: clamp_def)

section \<open>The trigger transform\<close>

lemma uint_232: "uint (zero::u8) = 232 \<longleftrightarrow> zero = 232"
proof
  assume "uint zero = 232"
  then have "word_of_int (uint zero) = (word_of_int 232 :: u8)" by simp
  then show "zero = 232" by simp
next
  assume "zero = 232"
  then show "uint zero = 232" by simp
qed

lemma report_trigger_guarded:
  assumes "zero \<noteq> 232"
  shows "switch2_report_trigger zero abs_code data =
           Inr (abs_code, clamp ((4096 * (uint data - uint zero)) sdiv (232 - uint zero)) 0 4095)"
    and "0 \<le> clamp ((4096 * (uint data - uint zero)) sdiv (232 - uint zero)) 0 4095"
    and "clamp ((4096 * (uint data - uint zero)) sdiv (232 - uint zero)) 0 4095 \<le> 4095"
  using assms uint_232 [of zero]
  by (simp_all add: switch2_report_trigger_def NS2_TRIGGER_RANGE_def clamp_def)

text \<open>C1. The trigger transform is \<open>4096 * (raw - zero) / (232 - zero)\<close> clamped to
  [0, 4095] (\<open>report_trigger_guarded\<close>), but nothing guards the division: with a zero
  offset of 232 the divisor is zero and the transform ends in the divide error, for
  every raw byte, instead of saturating to 4095.\<close>

theorem report_trigger_zero_232_divides_by_zero:
  "switch2_report_trigger 232 abs_code data = Inl DivideError"
  by (simp add: switch2_report_trigger_def)

section \<open>The axis transform\<close>

lemma report_axis_calibrated:
  assumes raw: "0 \<le> raw" "raw < 4096"
    and c: "neutral c \<noteq> 0" "negative c \<noteq> 0" "positive c \<noteq> 0"
  shows "switch2_report_axis (Some c) axis raw negate =
     (axis, clamp (let v = (raw - uint (neutral c)) * (32767 + 1);
                       q = (if v < 0 then v sdiv uint (negative c) else v sdiv uint (positive c))
                   in if negate then - q else q) (- 32768) 32767)"
proof -
  have n: "0 \<le> uint (neutral c)" "uint (neutral c) < 65536"
    using uint_lt2p [of "neutral c"] uint_nonnegative [of "neutral c"] by simp_all
  define a where "a = raw - uint (neutral c)"
  have a: "- 65536 < a" "a < 4096" using raw n unfolding a_def by linarith+
  then have fa: "fits_int32 a" by (simp add: fits_int32_def)
  define b where "b = a * 32768"
  have b: "- 2147483648 < b" "b < 2147483648" using a by (simp_all add: b_def)
  then have fb: "fits_int32 b" by (simp add: fits_int32_def)
  have q: "\<bar>b sdiv d\<bar> < 2147483648" for d
    using abs_sdiv_le [of b d] b by linarith
  have fq: "fits_int32 (- (b sdiv d))" for d
    using q [of d] by (simp add: fits_int32_def abs_less_iff)
  show ?thesis
    using c fa fb fq
    by (simp add: switch2_report_axis_def calib_usable_def Let_def wrap32_id
        NS2_AXIS_MAX_def NS2_AXIS_MIN_def a_def [symmetric] b_def [symmetric])
qed

lemma report_axis_fallback:
  assumes raw: "0 \<le> raw" "raw < 4096"
    and c: "\<not> calib_usable calib"
  shows "switch2_report_axis calib axis raw negate =
     (axis, clamp (let v = (raw - 2048) * 16 in if negate then - v else v) (- 32768) 32767)"
proof -
  have f1: "fits_int32 (raw - 2048)" using raw by (simp add: fits_int32_def)
  have f2: "fits_int32 ((raw - 2048) * 16)" using raw by (simp add: fits_int32_def)
  have f3: "fits_int32 (- ((raw - 2048) * 16))" using raw by (simp add: fits_int32_def)
  have f4: "fits_int32 (32768 - raw * 16)" using raw by (simp add: fits_int32_def)
  show ?thesis
    using c f1 f2 f3 f4
    by (simp add: switch2_report_axis_def Let_def wrap32_id NS2_AXIS_MAX_def NS2_AXIS_MIN_def)
qed

lemma report_axis_range:
  "- 32768 \<le> snd (switch2_report_axis calib axis val negate) \<and>
   snd (switch2_report_axis calib axis val negate) \<le> 32767"
  by (simp add: switch2_report_axis_def Let_def clamp_def NS2_AXIS_MAX_def NS2_AXIS_MIN_def)

text \<open>The samples \<open>switch2_report_stick\<close> hands to the axis transform are 12-bit.\<close>

lemma uint_u8_bounds: "0 \<le> uint (a::u8) \<and> uint a < 256"
  using uint_lt2p [of a] uint_nonnegative [of a] by simp

lemma uint_and_0F: "uint ((b::u8) AND 0x0F) = uint b mod 16"
proof -
  have e: "b AND 0x0F = take_bit 4 b"
    by (simp add: take_bit_eq_mask mask_eq_exp_minus_1)
  have "uint (b AND 0x0F) = uint (take_bit 4 b)" by (simp only: e)
  also have "\<dots> = take_bit 4 (uint b)" by (rule unsigned_take_bit_eq)
  also have "\<dots> = uint b mod 16" by (simp add: take_bit_eq_mod)
  finally show ?thesis .
qed

lemma stick_sample_lo:
  "0 \<le> uint (a::u8) OR push_bit 8 (uint ((b::u8) AND 0x0F)) \<and>
   uint a OR push_bit 8 (uint (b AND 0x0F)) < 4096"
proof -
  have p: "0 \<le> push_bit 8 (uint (b AND 0x0F))" "push_bit 8 (uint (b AND 0x0F)) < 2 ^ 12"
    by (simp_all add: uint_and_0F push_bit_eq_mult)
  have a: "0 \<le> uint a" "uint a < 2 ^ 12" using uint_u8_bounds [of a] by simp_all
  have "uint a OR push_bit 8 (uint (b AND 0x0F)) < 2 ^ 12"
    using a p by (intro OR_upper) simp_all
  then show ?thesis using a(1) p(1) by simp
qed

lemma stick_sample_hi:
  "0 \<le> uint (drop_bit 4 (b::u8)) OR push_bit 4 (uint (c::u8)) \<and>
   uint (drop_bit 4 b) OR push_bit 4 (uint c) < 4096"
proof -
  have p: "0 \<le> push_bit 4 (uint c)" "push_bit 4 (uint c) < 2 ^ 12"
    using uint_u8_bounds [of c] by (simp_all add: push_bit_eq_mult)
  have a: "0 \<le> uint (drop_bit 4 b)" "uint (drop_bit 4 b) < 2 ^ 12"
    using uint_u8_bounds [of "drop_bit 4 b"] by simp_all
  have "uint (drop_bit 4 b) OR push_bit 4 (uint c) < 2 ^ 12"
    using a p by (intro OR_upper) simp_all
  then show ?thesis using a(1) p(1) by simp
qed

text \<open>So both formulas of the axis transform apply to every event of
  \<open>switch2_report_stick\<close>; here the one for sticks whose calibration is not usable.\<close>

lemma report_stick_fallback:
  assumes "\<not> calib_usable (Some (stick_x calib))" "\<not> calib_usable (Some (stick_y calib))"
  shows "switch2_report_stick calib x y data =
     [(x, clamp (((uint (data 0) OR push_bit 8 (uint (data 1 AND 0x0F))) - 2048) * 16)
            (- 32768) 32767),
      (y, clamp (- (((uint (drop_bit 4 (data 1)) OR push_bit 4 (uint (data 2))) - 2048) * 16))
            (- 32768) 32767)]"
proof -
  let ?rx = "uint (data 0) OR push_bit 8 (uint (data 1 AND 0x0F))"
  let ?ry = "uint (drop_bit 4 (data 1)) OR push_bit 4 (uint (data 2))"
  have x: "switch2_report_axis (Some (stick_x calib)) x ?rx False =
      (x, clamp ((?rx - 2048) * 16) (- 32768) 32767)"
    using stick_sample_lo [of "data 0" "data 1"] assms(1)
      report_axis_fallback [of ?rx "Some (stick_x calib)" x False]
    by (simp add: Let_def)
  have y: "switch2_report_axis (Some (stick_y calib)) y ?ry True =
      (y, clamp (- ((?ry - 2048) * 16)) (- 32768) 32767)"
    using stick_sample_hi [of "data 1" "data 2"] assms(2)
      report_axis_fallback [of ?ry "Some (stick_y calib)" y True]
    by (simp add: Let_def)
  show ?thesis
    unfolding switch2_report_stick_def x y ..
qed

text \<open>C5. For a 12-bit raw sample: with a calibration whose neutral, negative and
  positive are all nonzero the value is \<open>(raw - neutral) * 32768\<close> divided (towards
  zero) by negative when it is below zero and by positive otherwise; with no calibration,
  or one with a zero field, it is \<open>(raw - 2048) * 16\<close>; the sign flip comes before the
  clamp; and for every input the reported value lies in [-32768, 32767].\<close>

theorem report_axis_transform:
  "(0 \<le> raw \<and> raw < 4096 \<and> neutral c \<noteq> 0 \<and> negative c \<noteq> 0 \<and> positive c \<noteq> 0 \<longrightarrow>
      switch2_report_axis (Some c) axis raw negate =
        (axis, clamp (let v = (raw - uint (neutral c)) * (32767 + 1);
                          q = (if v < 0 then v sdiv uint (negative c)
                               else v sdiv uint (positive c))
                      in if negate then - q else q) (- 32768) 32767)) \<and>
   (0 \<le> raw \<and> raw < 4096 \<and>
    (calib = None \<or> (\<exists>z. calib = Some z \<and> (neutral z = 0 \<or> negative z = 0 \<or> positive z = 0))) \<longrightarrow>
      switch2_report_axis calib axis raw negate =
        (axis, clamp (let v = (raw - 2048) * 16 in if negate then - v else v)
                 (- 32768) 32767)) \<and>
   - 32768 \<le> snd (switch2_report_axis calib' axis val negate) \<and>
   snd (switch2_report_axis calib' axis val negate) \<le> 32767"
proof -
  have "\<not> calib_usable calib"
    if "calib = None \<or> (\<exists>z. calib = Some z \<and> (neutral z = 0 \<or> negative z = 0 \<or> positive z = 0))"
    using that by (auto simp add: calib_usable_def)
  then show ?thesis
    using report_axis_calibrated [of raw c axis negate]
      report_axis_fallback [of raw calib axis negate]
      report_axis_range [of calib' axis val negate]
    by blast
qed

theorem report_axis_transform_witness:
  "switch2_report_axis (Some \<lparr>neutral = 2048, negative = 1500, positive = 1400\<rparr>) 0 100 True
     = (0, 32767) \<and>
   switch2_report_axis (Some \<lparr>neutral = 2048, negative = 1500, positive = 1400\<rparr>) 0 2100 False
     = (0, 1217) \<and>
   switch2_report_axis (Some \<lparr>neutral = 2048, negative = 0, positive = 1400\<rparr>) 1 100 True
     = (1, 31168) \<and>
   switch2_report_axis None 1 4095 False = (1, 32752)"
proof -
  let ?c = "\<lparr>neutral = 2048, negative = 1500, positive = 1400\<rparr>"
  let ?p = "\<lparr>neutral = 2048, negative = 0, positive = 1400\<rparr>"
  have a: "switch2_report_axis (Some ?c) 0 100 True = (0, 32767)"
    using report_axis_transform [of 100 ?c 0 True None None 0]
    by (simp add: clamp_def signed_divide_int_def)
  have b: "switch2_report_axis (Some ?c) 0 2100 False = (0, 1217)"
    using report_axis_transform [of 2100 ?c 0 False None None 0]
    by (simp add: clamp_def signed_divide_int_def)
  have c: "switch2_report_axis (Some ?p) 1 100 True = (1, 31168)"
    using report_axis_transform [of 100 ?c 1 True "Some ?p" None 0]
    by (simp add: clamp_def)
  have d: "switch2_report_axis None 1 4095 False = (1, 32752)"
    using report_axis_transform [of 4095 ?c 1 False None None 0]
    by (simp add: clamp_def)
  from a b c d show ?thesis by simp
qed

section \<open>The calibration codec\<close>

lemma or_push_bit_nat:
  assumes "a < 2 ^ n"
  shows "(a::nat) OR push_bit n b = a + 2 ^ n * b"
proof -
  from assms have ta: "take_bit n a = a" by (rule take_bit_nat_eq_self)
  have "\<not> bit a i \<or> \<not> bit (push_bit n b) i" for i
  proof (cases "i < n")
    case True
    then show ?thesis by (simp add: bit_push_bit_iff)
  next
    case False
    then have "\<not> bit (take_bit n a) i" by (simp add: bit_take_bit_iff)
    then show ?thesis by (simp add: ta)
  qed
  then have e: "a + push_bit n b = a OR push_bit n b"
    by (rule disjunctive_add)
  have "a OR push_bit n b = a + push_bit n b" by (simp only: e)
  then show ?thesis unfolding push_bit_eq_mult by (simp add: mult.commute)
qed

lemma unat_u8_lt: "unat (a::u8) < 256"
  using unsigned_less [of a, where ?'a = nat] by simp

lemma unat_ucast_u8_u16: "unat (ucast (a::u8) :: u16) = unat a"
proof -
  have "take_bit 16 (unat a) = unat a"
    by (rule take_bit_nat_eq_self) (use unat_u8_lt [of a] in simp)
  then show ?thesis by (simp add: unsigned_ucast_eq)
qed

lemma unat_and_0F: "unat ((b::u8) AND 0x0F) = unat b mod 16"
proof -
  have e: "b AND 0x0F = take_bit 4 b"
    by (simp add: take_bit_eq_mask mask_eq_exp_minus_1)
  have "unat (b AND 0x0F) = unat (take_bit 4 b)" by (simp only: e)
  also have "\<dots> = take_bit 4 (unat b)" by (rule unsigned_take_bit_eq)
  also have "\<dots> = unat b mod 16" by (simp add: take_bit_eq_mod)
  finally show ?thesis .
qed

lemma unat_drop_4: "unat (drop_bit 4 (b::u8)) = unat b div 16"
proof -
  have "unat (drop_bit 4 b) = drop_bit 4 (unat b)" by (rule unat_drop_bit_eq)
  also have "\<dots> = unat b div 16" by (simp add: drop_bit_eq_div)
  finally show ?thesis .
qed

lemma unat_push_u16:
  assumes "2 ^ n * unat (w::u16) < 65536"
  shows "unat (push_bit n w) = 2 ^ n * unat w"
proof -
  have "unat (push_bit n w) = take_bit 16 (push_bit n (unat w))"
    by (simp add: unsigned_push_bit_eq)
  also have "push_bit n (unat w) = 2 ^ n * unat w" by (simp add: push_bit_eq_mult)
  also have "take_bit 16 (2 ^ n * unat w) = 2 ^ n * unat w"
    by (rule take_bit_nat_eq_self) (use assms in simp)
  finally show ?thesis .
qed

text \<open>The low 12 bits of three bytes: the first byte and the low nibble of the second.\<close>

lemma unat_lo12:
  "unat ((ucast (a::u8) :: u16) OR push_bit 8 (ucast ((b::u8) AND 0x0F))) =
     unat a + 256 * (unat b mod 16)"
proof -
  have a: "unat (ucast a :: u16) < 2 ^ 8"
    using unat_u8_lt [of a] by (simp add: unat_ucast_u8_u16)
  have m: "unat (ucast (b AND 0x0F) :: u16) = unat b mod 16"
    by (simp only: unat_ucast_u8_u16 unat_and_0F)
  have p: "unat (push_bit 8 (ucast (b AND 0x0F) :: u16)) = 2 ^ 8 * (unat b mod 16)"
    by (subst unat_push_u16) (simp_all only: m, simp_all)
  have "unat ((ucast a :: u16) OR push_bit 8 (ucast (b AND 0x0F)))
      = unat (ucast a :: u16) OR 2 ^ 8 * (unat b mod 16)"
    by (simp only: unsigned_or_eq p)
  also have "2 ^ 8 * (unat b mod 16) = push_bit 8 (unat b mod 16)"
    by (simp add: push_bit_eq_mult)
  also have "unat (ucast a :: u16) OR push_bit 8 (unat b mod 16) =
      unat (ucast a :: u16) + 2 ^ 8 * (unat b mod 16)"
    using a by (rule or_push_bit_nat)
  finally show ?thesis by (simp add: unat_ucast_u8_u16)
qed

text \<open>The high 12 bits: the high nibble of the second byte and the third byte.\<close>

lemma unat_hi12:
  "unat ((ucast (drop_bit 4 (b::u8)) :: u16) OR push_bit 4 (ucast (c::u8))) =
     unat b div 16 + 16 * unat c"
proof -
  have b: "unat (ucast (drop_bit 4 b) :: u16) = unat b div 16"
    by (simp only: unat_ucast_u8_u16 unat_drop_4)
  have bl: "unat b div 16 < 2 ^ 4" using unat_u8_lt [of b] by simp
  have c: "unat (ucast c :: u16) = unat c" by (rule unat_ucast_u8_u16)
  have p: "unat (push_bit 4 (ucast c :: u16)) = 2 ^ 4 * unat c"
    by (subst unat_push_u16) (simp_all only: c, use unat_u8_lt [of c] in simp_all)
  have "unat ((ucast (drop_bit 4 b) :: u16) OR push_bit 4 (ucast c))
      = unat b div 16 OR 2 ^ 4 * unat c"
    by (simp only: unsigned_or_eq p b)
  also have "2 ^ 4 * unat c = push_bit 4 (unat c)"
    by (simp add: push_bit_eq_mult)
  also have "unat b div 16 OR push_bit 4 (unat c) = unat b div 16 + 2 ^ 4 * unat c"
    using bl by (rule or_push_bit_nat)
  finally show ?thesis by simp
qed

lemma bit12: "unat (a::u16) < 4096 \<Longrightarrow> bit a n \<Longrightarrow> n < 12"
proof -
  assume a: "unat a < 4096" and b: "bit a n"
  have "bit (unat a) n" using b by (simp add: bit_unsigned_iff)
  moreover have "take_bit 12 (unat a) = unat a"
    by (rule take_bit_nat_eq_self) (use a in simp)
  ultimately have "bit (take_bit 12 (unat a)) n" by simp
  then show "n < 12" by (simp add: bit_take_bit_iff)
qed

lemma and_0F_take_bit: "(w::u8) AND 0x0F = take_bit 4 w"
  by (simp add: take_bit_eq_mask mask_eq_exp_minus_1)

text \<open>Unpacking what \<open>spec_pack_pair\<close> packed gives the two values back.\<close>

lemma unpack_pack_lo:
  assumes "unat (a::u16) < 4096"
  shows "ucast (ucast a :: u8) OR
         push_bit 8 (ucast ((ucast (drop_bit 8 a) OR push_bit 4 (ucast (b::u16)) :: u8) AND 0x0F)) = a"
  unfolding and_0F_take_bit
  apply (rule bit_word_eqI)
  apply (auto simp add: bit_simps dest: bit12 [OF assms])
  done

lemma unpack_pack_hi:
  assumes "unat (a::u16) < 4096" "unat (b::u16) < 4096"
  shows "ucast (drop_bit 4 (ucast (drop_bit 8 a) OR push_bit 4 (ucast b) :: u8)) OR
         push_bit 4 (ucast (ucast (drop_bit 4 b) :: u8)) = b"
  apply (rule bit_word_eqI)
  apply (auto simp add: bit_simps dest: bit12 [OF assms(1)] bit12 [OF assms(2)])
  done

lemma uncalibrated_replicate: "UNCALIBRATED = replicate 9 0xFF"
  by (simp add: UNCALIBRATED_def numeral_eq_Suc)

lemma memcmp_uncalibrated: "memcmp_eq UNCALIBRATED data \<longleftrightarrow> (\<forall>i<9. data i = 0xFF)"
proof -
  have "memcmp_eq UNCALIBRATED data \<longleftrightarrow> map data [0..<9] = replicate 9 0xFF"
    by (simp add: memcmp_eq_def uncalibrated_replicate)
  also have "\<dots> \<longleftrightarrow> (\<forall>i<9. data i = 0xFF)"
    by (auto simp add: list_eq_iff_nth_eq)
  finally show ?thesis .
qed

lemma pack_bytes:
  "buffer_of (spec_pack_stick c) 0 = ucast (neutral (stick_x c))"
  "buffer_of (spec_pack_stick c) 1 =
     ucast (drop_bit 8 (neutral (stick_x c))) OR push_bit 4 (ucast (neutral (stick_y c)))"
  "buffer_of (spec_pack_stick c) 2 = ucast (drop_bit 4 (neutral (stick_y c)))"
  "buffer_of (spec_pack_stick c) 3 = ucast (positive (stick_x c))"
  "buffer_of (spec_pack_stick c) 4 =
     ucast (drop_bit 8 (positive (stick_x c))) OR push_bit 4 (ucast (positive (stick_y c)))"
  "buffer_of (spec_pack_stick c) 5 = ucast (drop_bit 4 (positive (stick_y c)))"
  "buffer_of (spec_pack_stick c) 6 = ucast (negative (stick_x c))"
  "buffer_of (spec_pack_stick c) 7 =
     ucast (drop_bit 8 (negative (stick_x c))) OR push_bit 4 (ucast (negative (stick_y c)))"
  "buffer_of (spec_pack_stick c) 8 = ucast (drop_bit 4 (negative (stick_y c)))"
  by (simp_all add: buffer_of_def spec_pack_stick_def spec_pack_pair_def)

lemma pack_sentinel_values:
  assumes "is_12bit c" "memcmp_eq UNCALIBRATED (buffer_of (spec_pack_stick c))"
  shows "c = uncalibrated_stick"
proof -
  have b: "unat (neutral (stick_x c)) < 4096" "unat (negative (stick_x c)) < 4096"
      "unat (positive (stick_x c)) < 4096" "unat (neutral (stick_y c)) < 4096"
      "unat (negative (stick_y c)) < 4096" "unat (positive (stick_y c)) < 4096"
    using assms(1) by (simp_all add: is_12bit_def)
  let ?B = "buffer_of (spec_pack_stick c)"
  have "\<forall>i<9. ?B i = 0xFF"
    using assms(2) by (simp add: memcmp_uncalibrated)
  then have ff: "?B 0 = 0xFF" "?B 1 = 0xFF" "?B 2 = 0xFF" "?B 3 = 0xFF" "?B 4 = 0xFF"
      "?B 5 = 0xFF" "?B 6 = 0xFF" "?B 7 = 0xFF" "?B 8 = 0xFF"
    by simp_all
  have lo: "ucast (0xFF :: u8) OR push_bit 8 (ucast ((0xFF :: u8) AND 0x0F)) = (0xFFF :: u16)"
    by simp
  have hi: "ucast (drop_bit 4 (0xFF :: u8)) OR push_bit 4 (ucast (0xFF :: u8)) = (0xFFF :: u16)"
    by simp
  have "neutral (stick_x c) = ucast (?B 0) OR push_bit 8 (ucast (?B 1 AND 0x0F))"
    by (simp only: pack_bytes unpack_pack_lo [OF b(1)])
  then have xn: "neutral (stick_x c) = 0xFFF" by (simp only: ff lo)
  have "positive (stick_x c) = ucast (?B 3) OR push_bit 8 (ucast (?B 4 AND 0x0F))"
    by (simp only: pack_bytes unpack_pack_lo [OF b(3)])
  then have xp: "positive (stick_x c) = 0xFFF" by (simp only: ff lo)
  have "negative (stick_x c) = ucast (?B 6) OR push_bit 8 (ucast (?B 7 AND 0x0F))"
    by (simp only: pack_bytes unpack_pack_lo [OF b(2)])
  then have xm: "negative (stick_x c) = 0xFFF" by (simp only: ff lo)
  have "neutral (stick_y c) = ucast (drop_bit 4 (?B 1)) OR push_bit 4 (ucast (?B 2))"
    by (simp only: pack_bytes unpack_pack_hi [OF b(1) b(4)])
  then have yn: "neutral (stick_y c) = 0xFFF" by (simp only: ff hi)
  have "positive (stick_y c) = ucast (drop_bit 4 (?B 4)) OR push_bit 4 (ucast (?B 5))"
    by (simp only: pack_bytes unpack_pack_hi [OF b(3) b(6)])
  then have yp: "positive (stick_y c) = 0xFFF" by (simp only: ff hi)
  have "negative (stick_y c) = ucast (drop_bit 4 (?B 7)) OR push_bit 4 (ucast (?B 8))"
    by (simp only: pack_bytes unpack_pack_hi [OF b(2) b(5)])
  then have ym: "negative (stick_y c) = 0xFFF" by (simp only: ff hi)
  from xn xp xm yn yp ym show ?thesis
    by (simp add: uncalibrated_stick_def switch2_stick_calibration.equality
        switch2_axis_calibration.equality)
qed

lemma parse_pack:
  assumes "is_12bit c" "c \<noteq> uncalibrated_stick"
  shows "switch2_parse_stick_calibration calib (buffer_of (spec_pack_stick c)) = (True, c)"
proof -
  have b: "unat (neutral (stick_x c)) < 4096" "unat (negative (stick_x c)) < 4096"
      "unat (positive (stick_x c)) < 4096" "unat (neutral (stick_y c)) < 4096"
      "unat (negative (stick_y c)) < 4096" "unat (positive (stick_y c)) < 4096"
    using assms(1) by (simp_all add: is_12bit_def)
  have n: "memcmp_eq UNCALIBRATED (buffer_of (spec_pack_stick c)) = False"
    using assms pack_sentinel_values [of c] by blast
  have "switch2_parse_stick_calibration calib (buffer_of (spec_pack_stick c)) =
      (True, \<lparr>stick_x = \<lparr>neutral = neutral (stick_x c), negative = negative (stick_x c),
                 positive = positive (stick_x c)\<rparr>,
              stick_y = \<lparr>neutral = neutral (stick_y c), negative = negative (stick_y c),
                 positive = positive (stick_y c)\<rparr>\<rparr>)"
    by (simp only: switch2_parse_stick_calibration_def n if_False pack_bytes
        unpack_pack_lo [OF b(1)] unpack_pack_lo [OF b(2)] unpack_pack_lo [OF b(3)]
        unpack_pack_hi [OF b(1) b(4)] unpack_pack_hi [OF b(2) b(5)]
        unpack_pack_hi [OF b(3) b(6)])
  then show ?thesis by simp
qed

lemma parse_present:
  assumes "\<not> (\<forall>i<9. data i = 0xFF)"
  shows "\<exists>c. switch2_parse_stick_calibration calib data = (True, c) \<and> is_12bit c \<and>
      unat (neutral (stick_x c)) = unat (data 0) + 256 * (unat (data 1) mod 16) \<and>
      unat (neutral (stick_y c)) = unat (data 1) div 16 + 16 * unat (data 2) \<and>
      unat (positive (stick_x c)) = unat (data 3) + 256 * (unat (data 4) mod 16) \<and>
      unat (positive (stick_y c)) = unat (data 4) div 16 + 16 * unat (data 5) \<and>
      unat (negative (stick_x c)) = unat (data 6) + 256 * (unat (data 7) mod 16) \<and>
      unat (negative (stick_y c)) = unat (data 7) div 16 + 16 * unat (data 8)"
proof -
  have lo: "unat (data i) + 256 * (unat (data j) mod 16) < 4096" for i j
    using unat_u8_lt [of "data i"] by simp
  have hi: "unat (data i) div 16 + 16 * unat (data j) < 4096" for i j
    using unat_u8_lt [of "data i"] unat_u8_lt [of "data j"] by simp
  show ?thesis
    using assms lo hi
    by (simp add: switch2_parse_stick_calibration_def memcmp_uncalibrated is_12bit_def
        unat_lo12 unat_hi12)
qed

text \<open>The block packed from six times \<open>0xFFF\<close> is the sentinel, and among the 12-bit
  sextuples it is the only one whose block is.\<close>

lemma pack_uncalibrated_block:
  "\<forall>i<9. buffer_of (spec_pack_stick uncalibrated_stick) i = 0xFF"
  by (simp add: pack_bytes uncalibrated_stick_def nth_Cons buffer_of_def
      spec_pack_stick_def spec_pack_pair_def split: nat.split)

lemma pack_sentinel_iff:
  assumes "is_12bit v"
  shows "(\<forall>i<9. buffer_of (spec_pack_stick v) i = 0xFF) \<longleftrightarrow> v = uncalibrated_stick"
proof
  assume "\<forall>i<9. buffer_of (spec_pack_stick v) i = 0xFF"
  then have "memcmp_eq UNCALIBRATED (buffer_of (spec_pack_stick v))"
    by (simp add: memcmp_uncalibrated)
  with assms show "v = uncalibrated_stick" by (rule pack_sentinel_values)
next
  assume "v = uncalibrated_stick"
  then show "\<forall>i<9. buffer_of (spec_pack_stick v) i = 0xFF"
    using pack_uncalibrated_block by simp
qed

text \<open>C3. Nine \<open>0xFF\<close> bytes parse as absent and leave the calibration as it was. Every
  other block parses as present, with the six values taken in the order x-neutral,
  y-neutral (bytes 0..2), x-positive, y-positive (bytes 3..5), x-negative, y-negative
  (bytes 6..8): the first of a pair is the first byte plus the low nibble of the second,
  the second is the high nibble of the second byte plus the third byte, so each is below
  4096. When the block packed from six 12-bit values is such a block, parsing it gives
  exactly these values back; the one sextuple whose block is the sentinel is six times
  \<open>0xFFF\<close>.\<close>

theorem parse_stick_calibration_correct:
  "((\<forall>i<9. data i = 0xFF) \<longrightarrow>
      switch2_parse_stick_calibration calib data = (False, calib)) \<and>
   (\<not> (\<forall>i<9. data i = 0xFF) \<longrightarrow>
      (\<exists>c. switch2_parse_stick_calibration calib data = (True, c) \<and> is_12bit c \<and>
        unat (neutral (stick_x c)) = unat (data 0) + 256 * (unat (data 1) mod 16) \<and>
        unat (neutral (stick_y c)) = unat (data 1) div 16 + 16 * unat (data 2) \<and>
        unat (positive (stick_x c)) = unat (data 3) + 256 * (unat (data 4) mod 16) \<and>
        unat (positive (stick_y c)) = unat (data 4) div 16 + 16 * unat (data 5) \<and>
        unat (negative (stick_x c)) = unat (data 6) + 256 * (unat (data 7) mod 16) \<and>
        unat (negative (stick_y c)) = unat (data 7) div 16 + 16 * unat (data 8))) \<and>
   (is_12bit v \<and> \<not> (\<forall>i<9. buffer_of (spec_pack_stick v) i = 0xFF) \<longrightarrow>
      switch2_parse_stick_calibration calib (buffer_of (spec_pack_stick v)) = (True, v)) \<and>
   (is_12bit v \<longrightarrow>
      ((\<forall>i<9. buffer_of (spec_pack_stick v) i = 0xFF) \<longleftrightarrow> v = uncalibrated_stick))"
proof -
  have "switch2_parse_stick_calibration calib data = (False, calib)"
    if "\<forall>i<9. data i = 0xFF"
    using that by (simp add: switch2_parse_stick_calibration_def memcmp_uncalibrated)
  moreover have "switch2_parse_stick_calibration calib (buffer_of (spec_pack_stick v)) =
      (True, v)"
    if "is_12bit v" "\<not> (\<forall>i<9. buffer_of (spec_pack_stick v) i = 0xFF)"
  proof -
    from that have "v \<noteq> uncalibrated_stick" using pack_sentinel_iff [of v] by blast
    with that(1) show ?thesis by (rule parse_pack)
  qed
  ultimately show ?thesis
    using parse_present [of data calib] pack_sentinel_iff [of v] by blast
qed

theorem parse_stick_calibration_correct_witness:
  "switch2_parse_stick_calibration zero_stick
      (buffer_of [0xFF, 0xFF, 0xFF, 0xFF, 0xFF, 0xFF, 0xFF, 0xFF, 0xFF]) = (False, zero_stick) \<and>
   switch2_parse_stick_calibration zero_stick
      (buffer_of (spec_pack_stick
         \<lparr>stick_x = \<lparr>neutral = 0x123, negative = 0x456, positive = 0x789\<rparr>,
          stick_y = \<lparr>neutral = 0xabc, negative = 0xdef, positive = 0x321\<rparr>\<rparr>)) =
      (True, \<lparr>stick_x = \<lparr>neutral = 0x123, negative = 0x456, positive = 0x789\<rparr>,
              stick_y = \<lparr>neutral = 0xabc, negative = 0xdef, positive = 0x321\<rparr>\<rparr>) \<and>
   (\<exists>c. switch2_parse_stick_calibration zero_stick
           (buffer_of [0x23, 0xC1, 0xAB, 0x89, 0x17, 0x32, 0x56, 0xF4, 0xDE]) = (True, c) \<and>
        unat (neutral (stick_x c)) = 0x123 \<and> unat (neutral (stick_y c)) = 0xabc \<and>
        unat (positive (stick_x c)) = 0x789 \<and> unat (positive (stick_y c)) = 0x321 \<and>
        unat (negative (stick_x c)) = 0x456 \<and> unat (negative (stick_y c)) = 0xdef) \<and>
   switch2_parse_stick_calibration zero_stick
      (buffer_of (spec_pack_stick uncalibrated_stick)) = (False, zero_stick)"
proof -
  let ?v = "\<lparr>stick_x = \<lparr>neutral = 0x123, negative = 0x456, positive = 0x789\<rparr>,
          stick_y = \<lparr>neutral = 0xabc, negative = 0xdef, positive = 0x321\<rparr>\<rparr>"
  let ?ff = "buffer_of [0xFF, 0xFF, 0xFF, 0xFF, 0xFF, 0xFF, 0xFF, 0xFF, 0xFF]"
  let ?d = "buffer_of [0x23, 0xC1, 0xAB, 0x89, 0x17, 0x32, 0x56, 0xF4, 0xDE]"
  have h1: "\<forall>i<9. ?ff i = 0xFF"
    by (simp add: buffer_of_def nth_Cons split: nat.split)
  have "buffer_of (spec_pack_stick ?v) 0 \<noteq> 0xFF"
    by (simp add: pack_bytes)
  then have "\<not> (\<forall>i<9. buffer_of (spec_pack_stick ?v) i = 0xFF)"
    by (metis zero_less_numeral)
  then have h2: "is_12bit ?v \<and> \<not> (\<forall>i<9. buffer_of (spec_pack_stick ?v) i = 0xFF)"
    by (simp add: is_12bit_def)
  have h3: "\<not> (\<forall>i<9. ?d i = 0xFF)"
  proof
    assume "\<forall>i<9. ?d i = 0xFF"
    then have "?d 0 = 0xFF" by simp
    then show False by (simp add: buffer_of_def)
  qed
  have a: "switch2_parse_stick_calibration zero_stick ?ff = (False, zero_stick)"
    using parse_stick_calibration_correct [of ?ff zero_stick ?v] h1 by blast
  have b: "switch2_parse_stick_calibration zero_stick (buffer_of (spec_pack_stick ?v)) =
      (True, ?v)"
    using parse_stick_calibration_correct [of ?ff zero_stick ?v] h2 by blast
  from parse_stick_calibration_correct [of ?d zero_stick ?v] h3
  obtain c where p: "switch2_parse_stick_calibration zero_stick ?d = (True, c)"
    and v: "unat (neutral (stick_x c)) = unat (?d 0) + 256 * (unat (?d 1) mod 16)"
      "unat (neutral (stick_y c)) = unat (?d 1) div 16 + 16 * unat (?d 2)"
      "unat (positive (stick_x c)) = unat (?d 3) + 256 * (unat (?d 4) mod 16)"
      "unat (positive (stick_y c)) = unat (?d 4) div 16 + 16 * unat (?d 5)"
      "unat (negative (stick_x c)) = unat (?d 6) + 256 * (unat (?d 7) mod 16)"
      "unat (negative (stick_y c)) = unat (?d 7) div 16 + 16 * unat (?d 8)"
    by blast
  have "unat (neutral (stick_x c)) = 0x123" "unat (neutral (stick_y c)) = 0xabc"
    "unat (positive (stick_x c)) = 0x789" "unat (positive (stick_y c)) = 0x321"
    "unat (negative (stick_x c)) = 0x456" "unat (negative (stick_y c)) = 0xdef"
    using v by (simp_all add: buffer_of_def)
  with p have c: "\<exists>c. switch2_parse_stick_calibration zero_stick ?d = (True, c) \<and>
        unat (neutral (stick_x c)) = 0x123 \<and> unat (neutral (stick_y c)) = 0xabc \<and>
        unat (positive (stick_x c)) = 0x789 \<and> unat (positive (stick_y c)) = 0x321 \<and>
        unat (negative (stick_x c)) = 0x456 \<and> unat (negative (stick_y c)) = 0xdef"
    by blast
  have h4: "is_12bit uncalibrated_stick"
    by (simp add: is_12bit_def uncalibrated_stick_def)
  have e: "switch2_parse_stick_calibration zero_stick
      (buffer_of (spec_pack_stick uncalibrated_stick)) = (False, zero_stick)"
    using parse_stick_calibration_correct
      [of "buffer_of (spec_pack_stick uncalibrated_stick)" zero_stick uncalibrated_stick] h4
    by blast
  from a b c e show ?thesis by blast
qed

section \<open>Flash reads\<close>

lemma unat_le16: "unat (le16_to_cpu p) = unat (p 0) + 256 * unat (p 1)"
proof -
  have c: "unat (ucast (p 1) :: u16) = unat (p 1)" by (rule unat_ucast_u8_u16)
  have a: "unat (ucast (p 0) :: u16) < 2 ^ 8"
    using unat_u8_lt [of "p 0"] by (simp add: unat_ucast_u8_u16)
  have q: "unat (push_bit 8 (ucast (p 1) :: u16)) = 2 ^ 8 * unat (p 1)"
    by (subst unat_push_u16) (simp_all only: c, use unat_u8_lt [of "p 1"] in simp_all)
  have "unat (le16_to_cpu p) = unat (ucast (p 0) :: u16) OR 2 ^ 8 * unat (p 1)"
    by (simp only: le16_to_cpu_def unsigned_or_eq q)
  also have "2 ^ 8 * unat (p 1) = push_bit 8 (unat (p 1))"
    by (simp add: push_bit_eq_mult)
  also have "unat (ucast (p 0) :: u16) OR push_bit 8 (unat (p 1)) =
      unat (ucast (p 0) :: u16) + 2 ^ 8 * unat (p 1)"
    using a by (rule or_push_bit_nat)
  finally show ?thesis by (simp add: unat_ucast_u8_u16)
qed

lemma magic_bytes: "le16_to_cpu p = NS2_USER_CALIB_MAGIC \<longleftrightarrow> p 0 = 0xB2 \<and> p 1 = 0xA1"
proof
  assume "le16_to_cpu p = NS2_USER_CALIB_MAGIC"
  then have "unat (le16_to_cpu p) = 0xa1b2" by (simp add: NS2_USER_CALIB_MAGIC_def)
  then have "unat (p 0) + 256 * unat (p 1) = 0xa1b2" by (simp only: unat_le16)
  then have "unat (p 0) = 0xB2 \<and> unat (p 1) = 0xA1"
    using unat_u8_lt [of "p 0"] by presburger
  then have "unat (p 0) = unat (0xB2 :: u8) \<and> unat (p 1) = unat (0xA1 :: u8)" by simp
  then show "p 0 = 0xB2 \<and> p 1 = 0xA1" by (simp only: word_unat_eq_iff)
next
  assume "p 0 = 0xB2 \<and> p 1 = 0xA1"
  then show "le16_to_cpu p = NS2_USER_CALIB_MAGIC"
    by (simp add: le16_to_cpu_def NS2_USER_CALIB_MAGIC_def)
qed

text \<open>C4. A user calibration block (11 bytes, at either user address) whose first two
  bytes are not \<open>B2 A1\<close>, the little-endian \<open>0xa1b2\<close>, leaves the whole session as it
  was, whatever the other nine bytes are. With the magic, the block is handled exactly as
  the factory block made of its last nine bytes is for the same stick.\<close>

theorem user_calibration_magic:
  "(le16_to_cpu data = NS2_USER_CALIB_MAGIC \<longleftrightarrow> data 0 = 0xB2 \<and> data 1 = 0xA1) \<and>
   (le16_to_cpu data \<noteq> NS2_USER_CALIB_MAGIC \<longrightarrow>
      switch2_handle_flash_read ns2 NS2_FLASH_SIZE_USER_AXIS_CALIB
        NS2_FLASH_ADDR_USER_PRIMARY_CALIB data = ns2 \<and>
      switch2_handle_flash_read ns2 NS2_FLASH_SIZE_USER_AXIS_CALIB
        NS2_FLASH_ADDR_USER_SECONDARY_CALIB data = ns2) \<and>
   (le16_to_cpu data = NS2_USER_CALIB_MAGIC \<longrightarrow>
      switch2_handle_flash_read ns2 NS2_FLASH_SIZE_USER_AXIS_CALIB
        NS2_FLASH_ADDR_USER_PRIMARY_CALIB data =
      switch2_handle_flash_read ns2 NS2_FLASH_SIZE_FACTORY_AXIS_CALIB
        NS2_FLASH_ADDR_FACTORY_PRIMARY_CALIB (ptr_add data 2) \<and>
      switch2_handle_flash_read ns2 NS2_FLASH_SIZE_USER_AXIS_CALIB
        NS2_FLASH_ADDR_USER_SECONDARY_CALIB data =
      switch2_handle_flash_read ns2 NS2_FLASH_SIZE_FACTORY_AXIS_CALIB
        NS2_FLASH_ADDR_FACTORY_SECONDARY_CALIB (ptr_add data 2) \<and>
      stick_calib0 (switch2_handle_flash_read ns2 NS2_FLASH_SIZE_USER_AXIS_CALIB
        NS2_FLASH_ADDR_USER_PRIMARY_CALIB data) =
      snd (switch2_parse_stick_calibration (stick_calib0 ns2) (ptr_add data 2)) \<and>
      stick_calib1 (switch2_handle_flash_read ns2 NS2_FLASH_SIZE_USER_AXIS_CALIB
        NS2_FLASH_ADDR_USER_SECONDARY_CALIB data) =
      snd (switch2_parse_stick_calibration (stick_calib1 ns2) (ptr_add data 2)))"
  using magic_bytes [of data]
  by (simp add: switch2_handle_flash_read_def
      NS2_FLASH_ADDR_SERIAL_def NS2_FLASH_ADDR_FACTORY_PRIMARY_CALIB_def
      NS2_FLASH_ADDR_FACTORY_SECONDARY_CALIB_def NS2_FLASH_ADDR_FACTORY_TRIGGER_CALIB_def
      NS2_FLASH_ADDR_USER_PRIMARY_CALIB_def NS2_FLASH_ADDR_USER_SECONDARY_CALIB_def
      NS2_FLASH_SIZE_USER_AXIS_CALIB_def NS2_FLASH_SIZE_FACTORY_AXIS_CALIB_def)

theorem user_calibration_magic_witness:
  "stick_calib0 (switch2_handle_flash_read new_controller 11 0x1fc040
      (buffer_of [0xB2, 0xA0, 0x23, 0xC1, 0xAB, 0x89, 0x17, 0x32, 0x56, 0xF4, 0xDE])) = zero_stick \<and>
   stick_calib0 (switch2_handle_flash_read new_controller 11 0x1fc040
      (buffer_of [0xB2, 0xA1, 0x23, 0xC1, 0xAB, 0x89, 0x17, 0x32, 0x56, 0xF4, 0xDE])) =
     \<lparr>stick_x = \<lparr>neutral = 0x123, negative = 0x456, positive = 0x789\<rparr>,
      stick_y = \<lparr>neutral = 0xabc, negative = 0xdef, positive = 0x321\<rparr>\<rparr>"
proof -
  let ?bad = "buffer_of [0xB2, 0xA0, 0x23, 0xC1, 0xAB, 0x89, 0x17, 0x32, 0x56, 0xF4, 0xDE]"
  let ?good = "buffer_of [0xB2, 0xA1, 0x23, 0xC1, 0xAB, 0x89, 0x17, 0x32, 0x56, 0xF4, 0xDE]"
  have h1: "le16_to_cpu ?bad \<noteq> NS2_USER_CALIB_MAGIC"
    by (simp add: le16_to_cpu_def buffer_of_def NS2_USER_CALIB_MAGIC_def)
  have h2: "le16_to_cpu ?good = NS2_USER_CALIB_MAGIC"
    by (simp add: le16_to_cpu_def buffer_of_def NS2_USER_CALIB_MAGIC_def)
  have a: "switch2_handle_flash_read new_controller NS2_FLASH_SIZE_USER_AXIS_CALIB
        NS2_FLASH_ADDR_USER_PRIMARY_CALIB ?bad = new_controller"
    using user_calibration_magic [of ?bad new_controller] h1 by blast
  have b: "stick_calib0 (switch2_handle_flash_read new_controller NS2_FLASH_SIZE_USER_AXIS_CALIB
        NS2_FLASH_ADDR_USER_PRIMARY_CALIB ?good) =
      snd (switch2_parse_stick_calibration (stick_calib0 new_controller) (ptr_add ?good 2))"
    using user_calibration_magic [of ?good new_controller] h2 by blast
  have c: "snd (switch2_parse_stick_calibration (stick_calib0 new_controller) (ptr_add ?good 2)) =
     \<lparr>stick_x = \<lparr>neutral = 0x123, negative = 0x456, positive = 0x789\<rparr>,
      stick_y = \<lparr>neutral = 0xabc, negative = 0xdef, positive = 0x321\<rparr>\<rparr>"
    by (simp add: switch2_parse_stick_calibration_def memcmp_eq_def UNCALIBRATED_def
        ptr_add_def buffer_of_def)
  from a b c show ?thesis
    by (simp add: NS2_FLASH_SIZE_USER_AXIS_CALIB_def NS2_FLASH_ADDR_USER_PRIMARY_CALIB_def
        new_controller_def)
qed

section \<open>The initialization state machine\<close>

lemmas init_step_defs =
  NS2_INIT_STARTING_def NS2_INIT_READ_SERIAL_def NS2_INIT_READ_FACTORY_PRIMARY_CALIB_def
  NS2_INIT_READ_FACTORY_SECONDARY_CALIB_def NS2_INIT_READ_FACTORY_TRIGGER_CALIB_def
  NS2_INIT_READ_USER_PRIMARY_CALIB_def NS2_INIT_READ_USER_SECONDARY_CALIB_def
  NS2_INIT_SET_FEATURE_MASK_def NS2_INIT_ENABLE_FEATURES_def NS2_INIT_GET_FIRMWARE_INFO_def
  NS2_INIT_ENABLE_RUMBLE_def NS2_INIT_GRIP_BUTTONS_def NS2_INIT_SET_PLAYER_LEDS_def
  NS2_INIT_INPUT_def NS2_INIT_DONE_def

lemma init_input_step: "init_step (snd (switch2_init_input env ns2)) = init_step ns2"
  by (simp add: switch2_init_input_def)

lemma init_switch_step:
  "init_switch env c ns2 = Some r \<Longrightarrow> init_step (fst (snd r)) = init_step ns2"
  by (auto simp add: init_switch_def Let_def init_input_step split: if_splits)

lemma init_loop_mono: "init_step ns2 \<le> init_step (fst (snd (init_loop env c ns2)))"
proof (induction "NS2_INIT_DONE - init_step ns2" arbitrary: ns2 rule: less_induct)
  case less
  show ?case
  proof (cases "init_step ns2 < NS2_INIT_DONE")
    case False
    then show ?thesis by (subst init_loop.simps) simp
  next
    case True
    let ?n = "ns2\<lparr>init_step := init_step ns2 + 1\<rparr>"
    show ?thesis
    proof (cases "init_switch env c ?n")
      case None
      have "NS2_INIT_DONE - init_step ?n < NS2_INIT_DONE - init_step ns2"
        using True by simp
      then have "init_step ?n \<le> init_step (fst (snd (init_loop env c ?n)))"
        by (rule less)
      then show ?thesis
        using True None by (subst init_loop.simps) (simp add: Let_def)
    next
      case (Some r)
      then have "init_step (fst (snd r)) = init_step ?n" by (rule init_switch_step)
      then show ?thesis
        using True Some by (subst init_loop.simps) (simp add: Let_def)
    qed
  qed
qed

text \<open>The loop never takes \<open>init_step\<close> past \<open>NS2_INIT_DONE\<close>.\<close>

lemma init_loop_bound:
  "init_step ns2 \<le> NS2_INIT_DONE \<Longrightarrow>
   init_step (fst (snd (init_loop env c ns2))) \<le> NS2_INIT_DONE"
proof (induction "NS2_INIT_DONE - init_step ns2" arbitrary: ns2 rule: less_induct)
  case less
  show ?case
  proof (cases "init_step ns2 < NS2_INIT_DONE")
    case False
    then show ?thesis using less.prems by (subst init_loop.simps) simp
  next
    case True
    let ?n = "ns2\<lparr>init_step := init_step ns2 + 1\<rparr>"
    have n: "init_step ?n \<le> NS2_INIT_DONE" using True by simp
    show ?thesis
    proof (cases "init_switch env c ?n")
      case None
      have "NS2_INIT_DONE - init_step ?n < NS2_INIT_DONE - init_step ns2"
        using True by simp
      then have "init_step (fst (snd (init_loop env c ?n))) \<le> NS2_INIT_DONE"
        using n by (rule less.hyps)
      then show ?thesis
        using True None by (subst init_loop.simps) (simp add: Let_def)
    next
      case (Some r)
      then have "init_step (fst (snd r)) = init_step ?n" by (rule init_switch_step)
      then show ?thesis
        using True Some n by (subst init_loop.simps) (simp add: Let_def)
    qed
  qed
qed

lemma init_controller_mono:
  "init_step ns2 \<le> init_step (fst (snd (switch2_init_controller env ns2)))"
  by (simp add: switch2_init_controller_def init_loop_mono split: option.split)

lemma init_controller_calls_mono:
  "init_step ns2 \<le> init_step (init_controller_calls envs ns2)"
proof (induction envs arbitrary: ns2)
  case Nil
  show ?case by simp
next
  case (Cons env envs)
  have "init_step ns2 \<le> init_step (fst (snd (switch2_init_controller env ns2)))"
    by (rule init_controller_mono)
  also have "\<dots> \<le> init_step (init_controller_calls envs
      (fst (snd (switch2_init_controller env ns2))))"
    by (rule Cons.IH)
  finally show ?case by simp
qed

text \<open>C6. A call with \<open>init_step\<close> at Done returns 0, changes nothing and sends
  nothing; the test for Done is the first thing the function does, so this holds with
  and without a command path. A call before Done with no command path returns
  \<open>-ENOTCONN\<close>, changes nothing (so \<open>init_step\<close> does not advance) and sends nothing.
  No call lowers \<open>init_step\<close>, so across any sequence of calls it never decreases.\<close>

theorem init_controller_guards_and_monotone:
  "(init_step ns2 = NS2_INIT_DONE \<longrightarrow> switch2_init_controller env ns2 = (0, ns2, [])) \<and>
   (init_step ns2 \<noteq> NS2_INIT_DONE \<and> cfg ns2 = None \<longrightarrow>
      switch2_init_controller env ns2 = (- ENOTCONN, ns2, [])) \<and>
   init_step ns2 \<le> init_step (fst (snd (switch2_init_controller env ns2))) \<and>
   init_step ns2 \<le> init_step (init_controller_calls envs ns2)"
  using init_controller_mono [of ns2 env] init_controller_calls_mono [of ns2 envs]
  by (simp add: switch2_init_controller_def)

theorem init_controller_guards_and_monotone_witness:
  "switch2_init_controller \<lparr>alloc_ok = True, ff_create_ret = 0, register_ret = 0\<rparr>
     (new_controller\<lparr>cfg := Some \<lparr>send_command = (\<lambda>m. 0)\<rparr>, init_step := NS2_INIT_DONE\<rparr>) =
     (0, new_controller\<lparr>cfg := Some \<lparr>send_command = (\<lambda>m. 0)\<rparr>,
           init_step := NS2_INIT_DONE\<rparr>, []) \<and>
   switch2_init_controller \<lparr>alloc_ok = True, ff_create_ret = 0, register_ret = 0\<rparr>
     new_controller = (- ENOTCONN, new_controller, []) \<and>
   init_step (init_controller_calls
     [\<lparr>alloc_ok = True, ff_create_ret = 0, register_ret = 0\<rparr>,
      \<lparr>alloc_ok = True, ff_create_ret = 0, register_ret = 0\<rparr>,
      \<lparr>alloc_ok = True, ff_create_ret = 0, register_ret = 0\<rparr>]
     (new_controller\<lparr>cfg := Some \<lparr>send_command = (\<lambda>m. 0)\<rparr>\<rparr>)) = 5"
proof -
  let ?env = "\<lparr>alloc_ok = True, ff_create_ret = 0, register_ret = 0\<rparr>"
  let ?done = "new_controller\<lparr>cfg := Some \<lparr>send_command = (\<lambda>m. 0)\<rparr>,
      init_step := NS2_INIT_DONE\<rparr>"
  have h1: "init_step ?done = NS2_INIT_DONE" by simp
  have h2: "init_step new_controller \<noteq> NS2_INIT_DONE \<and> cfg new_controller = None"
    by (simp add: new_controller_def NS2_INIT_DONE_def)
  have a: "switch2_init_controller ?env ?done = (0, ?done, [])"
    using init_controller_guards_and_monotone [of ?done ?env "[]"] h1 by blast
  have b: "switch2_init_controller ?env new_controller = (- ENOTCONN, new_controller, [])"
    using init_controller_guards_and_monotone [of new_controller ?env "[]"] h2 by blast
  have c: "init_step (init_controller_calls [?env, ?env, ?env]
     (new_controller\<lparr>cfg := Some \<lparr>send_command = (\<lambda>m. 0)\<rparr>\<rparr>)) = 5"
    by (simp add: switch2_init_controller_def init_loop.simps init_switch_def Let_def
        new_controller_def init_step_defs switch2_read_flash_def do_send_def
        switch2_ctlr_is_joycon_def NS2_CTLR_TYPE_JCL_def NS2_CTLR_TYPE_GC_def)
  from a b c show ?thesis by blast
qed

section \<open>Inbound frames\<close>

lemma ptr_add_add: "ptr_add (ptr_add p m) n = ptr_add p (n + m)"
  by (simp add: ptr_add_def add.assoc)

lemma init_input_data: "stored_data (snd (switch2_init_input env ns2)) = stored_data ns2"
  by (simp add: switch2_init_input_def stored_data_def)

lemma init_switch_data:
  "init_switch env c ns2 = Some r \<Longrightarrow> stored_data (fst (snd r)) = stored_data ns2"
  by (auto simp add: init_switch_def Let_def init_input_data split: if_splits)

lemma init_loop_data: "stored_data (fst (snd (init_loop env c ns2))) = stored_data ns2"
proof (induction "NS2_INIT_DONE - init_step ns2" arbitrary: ns2 rule: less_induct)
  case less
  show ?case
  proof (cases "init_step ns2 < NS2_INIT_DONE")
    case False
    then show ?thesis by (subst init_loop.simps) simp
  next
    case True
    let ?n = "ns2\<lparr>init_step := init_step ns2 + 1\<rparr>"
    have n: "stored_data ?n = stored_data ns2" by (simp add: stored_data_def)
    show ?thesis
    proof (cases "init_switch env c ?n")
      case None
      have "NS2_INIT_DONE - init_step ?n < NS2_INIT_DONE - init_step ns2"
        using True by simp
      then have "stored_data (fst (snd (init_loop env c ?n))) = stored_data ?n"
        by (rule less)
      then show ?thesis
        using True None n by (subst init_loop.simps) (simp add: Let_def)
    next
      case (Some r)
      then have "stored_data (fst (snd r)) = stored_data ?n" by (rule init_switch_data)
      then show ?thesis
        using True Some n by (subst init_loop.simps) (simp add: Let_def)
    qed
  qed
qed

lemma init_controller_data:
  "stored_data (fst (snd (switch2_init_controller env ns2))) = stored_data ns2"
  by (simp add: switch2_init_controller_def init_loop_data split: option.split)

lemma kicked_data: "stored_data (kicked env ns2) = stored_data ns2"
  by (simp add: kicked_def init_controller_data)

lemma receive_short:
  "len < 8 \<Longrightarrow> switch2_receive_command env ns2 message len = (- EINVAL, ns2, [])"
  by (simp add: switch2_receive_command_def)

lemma receive_flash_rejected:
  assumes "8 \<le> len" "message 0 = NS2_CMD_FLASH" "message 3 = NS2_SUBCMD_FLASH_READ"
    "len < 16 \<or> len < 16 + unat (message 8)"
  shows "fst (switch2_receive_command env ns2 message len) = - EINVAL \<and>
      fst (snd (switch2_receive_command env ns2 message len)) = kicked env ns2"
proof -
  have m: "ptr_add message 8 0 = message 8"
    by (simp add: ptr_add_def)
  show ?thesis
    using assms by (auto simp add: switch2_receive_command_def Let_def m kicked_def)
qed

lemma receive_flash_accepted:
  assumes "message 0 = NS2_CMD_FLASH" "message 3 = NS2_SUBCMD_FLASH_READ"
    "16 \<le> len" "16 + unat (message 8) \<le> len"
  shows "fst (switch2_receive_command env ns2 message len) = 0 \<and>
      fst (snd (switch2_receive_command env ns2 message len)) =
        switch2_handle_flash_read (kicked env ns2) (message 8)
          (le32_to_cpu (ptr_add message 12)) (ptr_add message 16)"
proof -
  have m: "ptr_add message 8 0 = message 8"
    by (simp add: ptr_add_def)
  show ?thesis
    using assms
    by (auto simp add: switch2_receive_command_def Let_def m ptr_add_add kicked_def)
qed

lemma new_controller_kicked:
  "kicked env new_controller = new_controller"
  by (simp add: kicked_def switch2_init_controller_def new_controller_def NS2_INIT_DONE_def)

text \<open>C7. A frame shorter than 8 bytes is rejected with \<open>-EINVAL\<close> and nothing else
  happens. A flash-read reply shorter than 16 bytes, or shorter than 16 plus the size it
  declares (byte 8), is rejected with \<open>-EINVAL\<close> and the stored data stays as it was.
  A flash-read reply that passes these checks is accepted, and only then is its payload
  (from byte 16 on, with the declared size and the little-endian address of bytes
  12..15) handed to \<open>switch2_handle_flash_read\<close>.\<close>

theorem receive_command_length_checks:
  "(len < 8 \<longrightarrow> switch2_receive_command env ns2 message len = (- EINVAL, ns2, [])) \<and>
   (8 \<le> len \<and> message 0 = NS2_CMD_FLASH \<and> message 3 = NS2_SUBCMD_FLASH_READ \<and>
    (len < 16 \<or> len < 16 + unat (message 8)) \<longrightarrow>
      fst (switch2_receive_command env ns2 message len) = - EINVAL \<and>
      fst (snd (switch2_receive_command env ns2 message len)) = kicked env ns2 \<and>
      stored_data (fst (snd (switch2_receive_command env ns2 message len))) =
        stored_data ns2) \<and>
   (message 0 = NS2_CMD_FLASH \<and> message 3 = NS2_SUBCMD_FLASH_READ \<and>
    16 \<le> len \<and> 16 + unat (message 8) \<le> len \<longrightarrow>
      fst (switch2_receive_command env ns2 message len) = 0 \<and>
      fst (snd (switch2_receive_command env ns2 message len)) =
        switch2_handle_flash_read (kicked env ns2) (message 8)
          (le32_to_cpu (ptr_add message 12)) (ptr_add message 16))"
  using receive_short [of len env ns2 message]
    receive_flash_rejected [of len message env ns2]
    receive_flash_accepted [of message len env ns2]
    kicked_data [of env ns2]
  by metis

theorem receive_command_length_checks_witness:
  "switch2_receive_command \<lparr>alloc_ok = True, ff_create_ret = 0, register_ret = 0\<rparr>
     new_controller (buffer_of [0x02, 0x01, 0x00, 0x04, 0x00, 0x00, 0x00]) 7 =
       (- EINVAL, new_controller, []) \<and>
   fst (switch2_receive_command \<lparr>alloc_ok = True, ff_create_ret = 0, register_ret = 0\<rparr>
     new_controller
     (buffer_of [0x02, 0x01, 0x00, 0x04, 0x00, 0x10, 0x00, 0x00,
                 0x09, 0x7e, 0x00, 0x00, 0xa8, 0x30, 0x01, 0x00,
                 0x23, 0xC1, 0xAB, 0x89, 0x17, 0x32, 0x56, 0xF4]) 24) = - EINVAL \<and>
   stick_calib0 (fst (snd (switch2_receive_command
     \<lparr>alloc_ok = True, ff_create_ret = 0, register_ret = 0\<rparr> new_controller
     (buffer_of [0x02, 0x01, 0x00, 0x04, 0x00, 0x10, 0x00, 0x00,
                 0x09, 0x7e, 0x00, 0x00, 0xa8, 0x30, 0x01, 0x00,
                 0x23, 0xC1, 0xAB, 0x89, 0x17, 0x32, 0x56, 0xF4]) 24))) = zero_stick \<and>
   stick_calib0 (fst (snd (switch2_receive_command
     \<lparr>alloc_ok = True, ff_create_ret = 0, register_ret = 0\<rparr> new_controller
     (buffer_of [0x02, 0x01, 0x00, 0x04, 0x00, 0x11, 0x00, 0x00,
                 0x09, 0x7e, 0x00, 0x00, 0xa8, 0x30, 0x01, 0x00,
                 0x23, 0xC1, 0xAB, 0x89, 0x17, 0x32, 0x56, 0xF4, 0xDE]) 25))) =
     \<lparr>stick_x = \<lparr>neutral = 0x123, negative = 0x456, positive = 0x789\<rparr>,
      stick_y = \<lparr>neutral = 0xabc, negative = 0xdef, positive = 0x321\<rparr>\<rparr>"
proof -
  let ?env = "\<lparr>alloc_ok = True, ff_create_ret = 0, register_ret = 0\<rparr>"
  let ?tiny = "buffer_of [0x02, 0x01, 0x00, 0x04, 0x00, 0x00, 0x00]"
  let ?cut = "buffer_of [0x02, 0x01, 0x00, 0x04, 0x00, 0x10, 0x00, 0x00,
                 0x09, 0x7e, 0x00, 0x00, 0xa8, 0x30, 0x01, 0x00,
                 0x23, 0xC1, 0xAB, 0x89, 0x17, 0x32, 0x56, 0xF4]"
  let ?full = "buffer_of [0x02, 0x01, 0x00, 0x04, 0x00, 0x11, 0x00, 0x00,
                 0x09, 0x7e, 0x00, 0x00, 0xa8, 0x30, 0x01, 0x00,
                 0x23, 0xC1, 0xAB, 0x89, 0x17, 0x32, 0x56, 0xF4, 0xDE]"
  have a: "switch2_receive_command ?env new_controller ?tiny 7 = (- EINVAL, new_controller, [])"
    using receive_command_length_checks [of 7 ?env new_controller ?tiny] by simp
  have hc: "(8::nat) \<le> 24 \<and> ?cut 0 = NS2_CMD_FLASH \<and> ?cut 3 = NS2_SUBCMD_FLASH_READ \<and>
      ((24::nat) < 16 \<or> 24 < 16 + unat (?cut 8))"
    by (simp add: buffer_of_def NS2_CMD_FLASH_def NS2_SUBCMD_FLASH_READ_def)
  have b: "fst (switch2_receive_command ?env new_controller ?cut 24) = - EINVAL \<and>
      stored_data (fst (snd (switch2_receive_command ?env new_controller ?cut 24))) =
        stored_data new_controller"
    using receive_command_length_checks [of 24 ?env new_controller ?cut] hc by blast
  then have b': "stick_calib0 (fst (snd (switch2_receive_command ?env new_controller ?cut 24))) =
      zero_stick"
    by (simp add: stored_data_def new_controller_def)
  have hf: "?full 0 = NS2_CMD_FLASH \<and> ?full 3 = NS2_SUBCMD_FLASH_READ \<and>
      (16::nat) \<le> 25 \<and> 16 + unat (?full 8) \<le> 25"
    by (simp add: buffer_of_def NS2_CMD_FLASH_def NS2_SUBCMD_FLASH_READ_def)
  have c: "fst (snd (switch2_receive_command ?env new_controller ?full 25)) =
      switch2_handle_flash_read (kicked ?env new_controller) (?full 8)
          (le32_to_cpu (ptr_add ?full 12)) (ptr_add ?full 16)"
    using receive_command_length_checks [of 25 ?env new_controller ?full] hf by blast
  have sz: "?full 8 = NS2_FLASH_SIZE_FACTORY_AXIS_CALIB"
    by (simp add: buffer_of_def NS2_FLASH_SIZE_FACTORY_AXIS_CALIB_def)
  have ad: "le32_to_cpu (ptr_add ?full 12) = NS2_FLASH_ADDR_FACTORY_PRIMARY_CALIB"
    by (simp add: buffer_of_def ptr_add_def le32_to_cpu_def
        NS2_FLASH_ADDR_FACTORY_PRIMARY_CALIB_def)
  have p: "snd (switch2_parse_stick_calibration zero_stick (ptr_add ?full 16)) =
     \<lparr>stick_x = \<lparr>neutral = 0x123, negative = 0x456, positive = 0x789\<rparr>,
      stick_y = \<lparr>neutral = 0xabc, negative = 0xdef, positive = 0x321\<rparr>\<rparr>"
    by (simp add: switch2_parse_stick_calibration_def memcmp_eq_def UNCALIBRATED_def
        ptr_add_def buffer_of_def)
  have c': "stick_calib0 (fst (snd (switch2_receive_command ?env new_controller ?full 25))) =
     \<lparr>stick_x = \<lparr>neutral = 0x123, negative = 0x456, positive = 0x789\<rparr>,
      stick_y = \<lparr>neutral = 0xabc, negative = 0xdef, positive = 0x321\<rparr>\<rparr>"
    unfolding c new_controller_kicked sz ad
    using p
    by (simp add: switch2_handle_flash_read_def NS2_FLASH_ADDR_SERIAL_def
        NS2_FLASH_ADDR_FACTORY_PRIMARY_CALIB_def new_controller_def)
  from a b b' c' show ?thesis by blast
qed

text \<open>The flash-read path looks at no byte beyond the received length: two buffers that
  agree on the first \<open>len\<close> bytes are handled alike.\<close>

lemma parse_stick_calibration_cong:
  assumes "\<forall>i<9. d1 i = d2 i"
  shows "switch2_parse_stick_calibration c d1 = switch2_parse_stick_calibration c d2"
proof -
  have e: "d1 i = d2 i" if "i < 9" for i
    using assms that by simp
  from assms have "memcmp_eq UNCALIBRATED d1 = memcmp_eq UNCALIBRATED d2"
    by (simp add: memcmp_uncalibrated)
  then show ?thesis
    by (simp add: switch2_parse_stick_calibration_def e)
qed

lemma handle_flash_read_cong:
  assumes "\<forall>i<unat sz. d1 i = d2 i"
  shows "switch2_handle_flash_read ns2 sz address d1 =
         switch2_handle_flash_read ns2 sz address d2"
proof -
  have e: "d1 i = d2 i" if "i < unat sz" for i
    using assms that by simp
  have serial: "memcpy (serial ns2) d1 (unat sz) = memcpy (serial ns2) d2 (unat sz)"
    using e by (simp add: memcpy_def)
  have factory: "switch2_parse_stick_calibration c d1 = switch2_parse_stick_calibration c d2"
    if "sz = NS2_FLASH_SIZE_FACTORY_AXIS_CALIB" for c
    using e that
    by (intro parse_stick_calibration_cong) (simp add: NS2_FLASH_SIZE_FACTORY_AXIS_CALIB_def)
  have trigger: "d1 0 = d2 0" "d1 1 = d2 1" if "sz = NS2_FLASH_SIZE_FACTORY_TRIGGER_CALIB"
    using e that by (simp_all add: NS2_FLASH_SIZE_FACTORY_TRIGGER_CALIB_def)
  have magic: "le16_to_cpu d1 = le16_to_cpu d2" if "sz = NS2_FLASH_SIZE_USER_AXIS_CALIB"
    using e that by (simp add: NS2_FLASH_SIZE_USER_AXIS_CALIB_def le16_to_cpu_def)
  have user: "switch2_parse_stick_calibration c (ptr_add d1 2) =
      switch2_parse_stick_calibration c (ptr_add d2 2)"
    if "sz = NS2_FLASH_SIZE_USER_AXIS_CALIB" for c
    using e that
    by (intro parse_stick_calibration_cong)
      (simp add: NS2_FLASH_SIZE_USER_AXIS_CALIB_def ptr_add_def)
  consider (ser) "address = NS2_FLASH_ADDR_SERIAL"
    | (fp) "address \<noteq> NS2_FLASH_ADDR_SERIAL" "address = NS2_FLASH_ADDR_FACTORY_PRIMARY_CALIB"
    | (fs) "address \<noteq> NS2_FLASH_ADDR_SERIAL" "address \<noteq> NS2_FLASH_ADDR_FACTORY_PRIMARY_CALIB"
        "address = NS2_FLASH_ADDR_FACTORY_SECONDARY_CALIB"
    | (ft) "address \<noteq> NS2_FLASH_ADDR_SERIAL" "address \<noteq> NS2_FLASH_ADDR_FACTORY_PRIMARY_CALIB"
        "address \<noteq> NS2_FLASH_ADDR_FACTORY_SECONDARY_CALIB"
        "address = NS2_FLASH_ADDR_FACTORY_TRIGGER_CALIB"
    | (up) "address \<noteq> NS2_FLASH_ADDR_SERIAL" "address \<noteq> NS2_FLASH_ADDR_FACTORY_PRIMARY_CALIB"
        "address \<noteq> NS2_FLASH_ADDR_FACTORY_SECONDARY_CALIB"
        "address \<noteq> NS2_FLASH_ADDR_FACTORY_TRIGGER_CALIB"
        "address = NS2_FLASH_ADDR_USER_PRIMARY_CALIB"
    | (us) "address \<noteq> NS2_FLASH_ADDR_SERIAL" "address \<noteq> NS2_FLASH_ADDR_FACTORY_PRIMARY_CALIB"
        "address \<noteq> NS2_FLASH_ADDR_FACTORY_SECONDARY_CALIB"
        "address \<noteq> NS2_FLASH_ADDR_FACTORY_TRIGGER_CALIB"
        "address \<noteq> NS2_FLASH_ADDR_USER_PRIMARY_CALIB"
        "address = NS2_FLASH_ADDR_USER_SECONDARY_CALIB"
    | (other) "address \<noteq> NS2_FLASH_ADDR_SERIAL" "address \<noteq> NS2_FLASH_ADDR_FACTORY_PRIMARY_CALIB"
        "address \<noteq> NS2_FLASH_ADDR_FACTORY_SECONDARY_CALIB"
        "address \<noteq> NS2_FLASH_ADDR_FACTORY_TRIGGER_CALIB"
        "address \<noteq> NS2_FLASH_ADDR_USER_PRIMARY_CALIB"
        "address \<noteq> NS2_FLASH_ADDR_USER_SECONDARY_CALIB"
    by blast
  then show ?thesis
  proof cases
    case ser
    then show ?thesis
      using serial by (auto simp add: switch2_handle_flash_read_def)
  next
    case fp
    then show ?thesis
      using factory [of "stick_calib0 ns2"]
      by (cases "sz = NS2_FLASH_SIZE_FACTORY_AXIS_CALIB")
        (simp_all add: switch2_handle_flash_read_def)
  next
    case fs
    then show ?thesis
      using factory [of "stick_calib1 ns2"]
      by (cases "sz = NS2_FLASH_SIZE_FACTORY_AXIS_CALIB")
        (simp_all add: switch2_handle_flash_read_def)
  next
    case ft
    then show ?thesis
      using trigger
      by (cases "sz = NS2_FLASH_SIZE_FACTORY_TRIGGER_CALIB")
        (simp_all add: switch2_handle_flash_read_def)
  next
    case up
    then show ?thesis
      using magic user [of "stick_calib0 ns2"]
      by (cases "sz = NS2_FLASH_SIZE_USER_AXIS_CALIB")
        (simp_all add: switch2_handle_flash_read_def)
  next
    case us
    then show ?thesis
      using magic user [of "stick_calib1 ns2"]
      by (cases "sz = NS2_FLASH_SIZE_USER_AXIS_CALIB")
        (simp_all add: switch2_handle_flash_read_def)
  next
    case other
    then show ?thesis
      by (simp add: switch2_handle_flash_read_def)
  qed
qed

lemma receive_flash_reads_frame_only:
  assumes "\<forall>i<len. m1 i = m2 i" "m1 0 = NS2_CMD_FLASH"
  shows "switch2_receive_command env ns2 m1 len = switch2_receive_command env ns2 m2 len"
proof (cases "len < 16")
  case True
  then show ?thesis
    using assms
    by (cases "len < 8") (auto simp add: switch2_receive_command_def Let_def)
next
  case False
  then have h: "m1 0 = m2 0" "m1 3 = m2 3" "m1 8 = m2 8"
      "m1 12 = m2 12" "m1 13 = m2 13" "m1 14 = m2 14" "m1 15 = m2 15"
    using assms(1) by simp_all
  have a: "le32_to_cpu (ptr_add (ptr_add m1 8) 4) = le32_to_cpu (ptr_add (ptr_add m2 8) 4)"
    using h by (simp add: le32_to_cpu_def ptr_add_def)
  have s: "ptr_add m1 8 0 = ptr_add m2 8 0"
    using h by (simp add: ptr_add_def)
  have d: "switch2_handle_flash_read n (ptr_add m2 8 0) ad (ptr_add (ptr_add m1 8) 8) =
      switch2_handle_flash_read n (ptr_add m2 8 0) ad (ptr_add (ptr_add m2 8) 8)"
    if "\<not> len < unat (ptr_add m2 8 0) + 16" for n ad
    using assms(1) that
    by (intro handle_flash_read_cong) (simp add: ptr_add_def)
  show ?thesis
    using False h(1,2) assms(2) a s d
    by (simp add: switch2_receive_command_def Let_def)
qed

text \<open>For a firmware-info reply the check lets every frame of at least 12 bytes through
  and then copies the twelve bytes 8..19 of the buffer.\<close>

lemma receive_fw_info:
  assumes "sizeof_version \<le> len" "message 0 = NS2_CMD_FW_INFO"
    "message 3 = NS2_SUBCMD_FW_INFO_GET"
  shows "fst (switch2_receive_command env ns2 message len) = 0"
    and "version (fst (snd (switch2_receive_command env ns2 message len))) =
           version_of_bytes (ptr_add message 8)"
    and "ctlr_type (fst (snd (switch2_receive_command env ns2 message len))) =
           unat (message 11)"
  using assms
  by (simp_all add: switch2_receive_command_def Let_def sizeof_version_def
      NS2_CMD_FW_INFO_def NS2_CMD_FLASH_def version_of_bytes_def ptr_add_def)

lemma flash_read_factory_primary:
  "stick_calib0 (switch2_handle_flash_read ns2 NS2_FLASH_SIZE_FACTORY_AXIS_CALIB
      NS2_FLASH_ADDR_FACTORY_PRIMARY_CALIB data) =
     snd (switch2_parse_stick_calibration (stick_calib0 ns2) data)"
  by (simp add: switch2_handle_flash_read_def NS2_FLASH_ADDR_SERIAL_def
      NS2_FLASH_ADDR_FACTORY_PRIMARY_CALIB_def)

lemma flash_read_factory_trigger:
  "data 0 \<noteq> 0xFF \<Longrightarrow> data 1 \<noteq> 0xFF \<Longrightarrow>
   lt_zero (switch2_handle_flash_read ns2 NS2_FLASH_SIZE_FACTORY_TRIGGER_CALIB
      NS2_FLASH_ADDR_FACTORY_TRIGGER_CALIB data) = data 0"
  by (simp add: switch2_handle_flash_read_def NS2_FLASH_ADDR_SERIAL_def
      NS2_FLASH_ADDR_FACTORY_PRIMARY_CALIB_def NS2_FLASH_ADDR_FACTORY_SECONDARY_CALIB_def
      NS2_FLASH_ADDR_FACTORY_TRIGGER_CALIB_def)

text \<open>C2. The flash-read path copies only bytes its length checks cover
  (\<open>receive_flash_reads_frame_only\<close>), but the firmware-info path does not: it compares the
  frame length with the size of the version structure alone, without the 8-byte header.
  A 12-byte firmware-info reply (header and four payload bytes) is accepted, and version
  and controller type are overwritten from bytes 8..19 of the transfer buffer, eight of
  which were never part of the frame: here they are the \<open>0xAA\<close> bytes left behind the
  frame, and with zero bytes behind the same frame the version stored is another one.\<close>

theorem fw_info_short_frame_overwrites_version:
  "fst (switch2_receive_command \<lparr>alloc_ok = True, ff_create_ret = 0, register_ret = 0\<rparr>
     attached_controller
     (buffer_of [0x10, 0x01, 0x00, 0x01, 0x00, 0x04, 0x00, 0x00, 0x01, 0x02, 0x03, 0x03,
                 0xAA, 0xAA, 0xAA, 0xAA, 0xAA, 0xAA, 0xAA, 0xAA]) 12) = 0 \<and>
   version (fst (snd (switch2_receive_command
     \<lparr>alloc_ok = True, ff_create_ret = 0, register_ret = 0\<rparr> attached_controller
     (buffer_of [0x10, 0x01, 0x00, 0x01, 0x00, 0x04, 0x00, 0x00, 0x01, 0x02, 0x03, 0x03,
                 0xAA, 0xAA, 0xAA, 0xAA, 0xAA, 0xAA, 0xAA, 0xAA]) 12))) =
     \<lparr>major = 1, minor = 2, patch = 3, ver_ctlr_type = 3, unk = 0xAAAAAAAA,
      dsp_major = 0xAA, dsp_minor = 0xAA, dsp_patch = 0xAA, dsp_type = 0xAA\<rparr> \<and>
   ctlr_type (fst (snd (switch2_receive_command
     \<lparr>alloc_ok = True, ff_create_ret = 0, register_ret = 0\<rparr> attached_controller
     (buffer_of [0x10, 0x01, 0x00, 0x01, 0x00, 0x04, 0x00, 0x00, 0x01, 0x02, 0x03, 0x03,
                 0xAA, 0xAA, 0xAA, 0xAA, 0xAA, 0xAA, 0xAA, 0xAA]) 12))) = NS2_CTLR_TYPE_GC \<and>
   version (fst (snd (switch2_receive_command
     \<lparr>alloc_ok = True, ff_create_ret = 0, register_ret = 0\<rparr> attached_controller
     (buffer_of [0x10, 0x01, 0x00, 0x01, 0x00, 0x04, 0x00, 0x00, 0x01, 0x02, 0x03, 0x03])
     12))) =
     \<lparr>major = 1, minor = 2, patch = 3, ver_ctlr_type = 3, unk = 0,
      dsp_major = 0, dsp_minor = 0, dsp_patch = 0, dsp_type = 0\<rparr> \<and>
   version attached_controller = zero_version \<and>
   ctlr_type attached_controller = NS2_CTLR_TYPE_JCL"
proof -
  let ?env = "\<lparr>alloc_ok = True, ff_create_ret = 0, register_ret = 0\<rparr>"
  let ?m = "buffer_of [0x10, 0x01, 0x00, 0x01, 0x00, 0x04, 0x00, 0x00, 0x01, 0x02, 0x03, 0x03,
                 0xAA, 0xAA, 0xAA, 0xAA, 0xAA, 0xAA, 0xAA, 0xAA]"
  have h: "sizeof_version \<le> 12" "?m 0 = NS2_CMD_FW_INFO" "?m 3 = NS2_SUBCMD_FW_INFO_GET"
    by (simp_all add: sizeof_version_def buffer_of_def NS2_CMD_FW_INFO_def
        NS2_SUBCMD_FW_INFO_GET_def)
  have v: "version_of_bytes (ptr_add ?m 8) =
     \<lparr>major = 1, minor = 2, patch = 3, ver_ctlr_type = 3, unk = 0xAAAAAAAA,
      dsp_major = 0xAA, dsp_minor = 0xAA, dsp_patch = 0xAA, dsp_type = 0xAA\<rparr>"
    by (simp add: version_of_bytes_def ptr_add_def buffer_of_def le32_to_cpu_def)
  have t: "unat (?m 11) = NS2_CTLR_TYPE_GC"
    by (simp add: buffer_of_def NS2_CTLR_TYPE_GC_def)
  let ?z = "buffer_of [0x10, 0x01, 0x00, 0x01, 0x00, 0x04, 0x00, 0x00, 0x01, 0x02, 0x03, 0x03]"
  have hz: "sizeof_version \<le> 12" "?z 0 = NS2_CMD_FW_INFO" "?z 3 = NS2_SUBCMD_FW_INFO_GET"
    by (simp_all add: sizeof_version_def buffer_of_def NS2_CMD_FW_INFO_def
        NS2_SUBCMD_FW_INFO_GET_def)
  have vz: "version_of_bytes (ptr_add ?z 8) =
     \<lparr>major = 1, minor = 2, patch = 3, ver_ctlr_type = 3, unk = 0,
      dsp_major = 0, dsp_minor = 0, dsp_patch = 0, dsp_type = 0\<rparr>"
    by (simp add: version_of_bytes_def ptr_add_def buffer_of_def le32_to_cpu_def)
  show ?thesis
    using receive_fw_info [OF h, of ?env attached_controller] v t
      receive_fw_info(2) [OF hz, of ?env attached_controller] vz
    by (simp add: attached_controller_def new_controller_def NS2_CTLR_TYPE_JCL_def)
qed

section \<open>Stored calibration and the axis transform\<close>

text \<open>C8, as stated: every stored calibration is all zero or all nonzero. It is not: the
  parser stores whatever a block that is not the sentinel carries. A factory primary
  calibration reply with the block \<open>01 00 00 00 00 00 00 00 00\<close>, received by a new
  session, leaves an X axis with neutral 1 and both extents 0.\<close>

theorem stored_calibration_can_be_partial:
  "\<not> calib_all_or_none (stick_x (stick_calib0 (fst (snd (switch2_receive_command
     \<lparr>alloc_ok = True, ff_create_ret = 0, register_ret = 0\<rparr> attached_controller
     (buffer_of [0x02, 0x01, 0x00, 0x04, 0x00, 0x11, 0x00, 0x00,
                 0x09, 0x7e, 0x00, 0x00, 0xa8, 0x30, 0x01, 0x00,
                 0x01, 0x00, 0x00, 0x00, 0x00, 0x00, 0x00, 0x00, 0x00]) 25)))))"
proof -
  let ?env = "\<lparr>alloc_ok = True, ff_create_ret = 0, register_ret = 0\<rparr>"
  let ?m = "buffer_of [0x02, 0x01, 0x00, 0x04, 0x00, 0x11, 0x00, 0x00,
                 0x09, 0x7e, 0x00, 0x00, 0xa8, 0x30, 0x01, 0x00,
                 0x01, 0x00, 0x00, 0x00, 0x00, 0x00, 0x00, 0x00, 0x00]"
  have hf: "?m 0 = NS2_CMD_FLASH \<and> ?m 3 = NS2_SUBCMD_FLASH_READ \<and>
      (16::nat) \<le> 25 \<and> 16 + unat (?m 8) \<le> 25"
    by (simp add: buffer_of_def NS2_CMD_FLASH_def NS2_SUBCMD_FLASH_READ_def)
  have c: "fst (snd (switch2_receive_command ?env attached_controller ?m 25)) =
      switch2_handle_flash_read (kicked ?env attached_controller) (?m 8)
          (le32_to_cpu (ptr_add ?m 12)) (ptr_add ?m 16)"
    using receive_flash_accepted [of ?m 25 ?env attached_controller] hf by blast
  have sz: "?m 8 = NS2_FLASH_SIZE_FACTORY_AXIS_CALIB"
    by (simp add: buffer_of_def NS2_FLASH_SIZE_FACTORY_AXIS_CALIB_def)
  have ad: "le32_to_cpu (ptr_add ?m 12) = NS2_FLASH_ADDR_FACTORY_PRIMARY_CALIB"
    by (simp add: buffer_of_def ptr_add_def le32_to_cpu_def
        NS2_FLASH_ADDR_FACTORY_PRIMARY_CALIB_def)
  have p: "stick_x (snd (switch2_parse_stick_calibration
        (stick_calib0 (kicked ?env attached_controller)) (ptr_add ?m 16))) =
     \<lparr>neutral = 1, negative = 0, positive = 0\<rparr>"
    by (simp add: switch2_parse_stick_calibration_def memcmp_eq_def UNCALIBRATED_def
        ptr_add_def buffer_of_def)
  have "stick_x (stick_calib0 (fst (snd (switch2_receive_command ?env attached_controller ?m 25)))) =
     \<lparr>neutral = 1, negative = 0, positive = 0\<rparr>"
    unfolding c sz ad flash_read_factory_primary by (rule p)
  then show ?thesis by (simp add: calib_all_or_none_def)
qed

text \<open>C8, amended: a stored calibration may be partial, and the axis transform never
  applies one. It uses a calibration only when neutral, negative and positive are all
  nonzero; when any of them is zero the value is the fixed linear default
  \<open>(raw - 2048) * 16\<close>, flipped and clamped as usual.\<close>

theorem partial_calibration_never_applied:
  "(neutral c = 0 \<or> negative c = 0 \<or> positive c = 0) \<and> 0 \<le> raw \<and> raw < 4096 \<longrightarrow>
     switch2_report_axis (Some c) axis raw negate =
       (axis, clamp (let v = (raw - 2048) * 16 in if negate then - v else v)
                (- 32768) 32767)"
proof -
  have "\<not> calib_usable (Some c)" if "neutral c = 0 \<or> negative c = 0 \<or> positive c = 0"
    using that by (auto simp add: calib_usable_def)
  then show ?thesis
    using report_axis_fallback [of raw "Some c" axis negate] by blast
qed

theorem partial_calibration_never_applied_witness:
  "switch2_report_axis (Some \<lparr>neutral = 1, negative = 0, positive = 0\<rparr>) 0 3000 False =
     (0, 15232) \<and>
   switch2_report_axis (Some \<lparr>neutral = 2000, negative = 1500, positive = 0\<rparr>) 1 1000 True =
     (1, 16768)"
proof -
  have a: "switch2_report_axis (Some \<lparr>neutral = 1, negative = 0, positive = 0\<rparr>) 0 3000 False =
     (0, 15232)"
    using partial_calibration_never_applied
      [of "\<lparr>neutral = 1, negative = 0, positive = 0\<rparr>" 3000 0 False]
    by (simp add: clamp_def)
  have b: "switch2_report_axis (Some \<lparr>neutral = 2000, negative = 1500, positive = 0\<rparr>) 1 1000 True =
     (1, 16768)"
    using partial_calibration_never_applied
      [of "\<lparr>neutral = 2000, negative = 1500, positive = 0\<rparr>" 1000 1 True]
    by (simp add: clamp_def)
  from a b show ?thesis by blast
qed

text \<open>The zero offset 232 of C1 is one the device can set: a factory trigger calibration
  reply with the bytes \<open>E8 10\<close> stores it as the left trigger's zero.\<close>

lemma trigger_zero_232_stored:
  "lt_zero (fst (snd (switch2_receive_command
     \<lparr>alloc_ok = True, ff_create_ret = 0, register_ret = 0\<rparr> attached_controller
     (buffer_of [0x02, 0x01, 0x00, 0x04, 0x00, 0x0a, 0x00, 0x00,
                 0x02, 0x7e, 0x00, 0x00, 0x40, 0x31, 0x01, 0x00, 0xE8, 0x10]) 18))) = 232"
proof -
  let ?env = "\<lparr>alloc_ok = True, ff_create_ret = 0, register_ret = 0\<rparr>"
  let ?m = "buffer_of [0x02, 0x01, 0x00, 0x04, 0x00, 0x0a, 0x00, 0x00,
                 0x02, 0x7e, 0x00, 0x00, 0x40, 0x31, 0x01, 0x00, 0xE8, 0x10]"
  have hf: "?m 0 = NS2_CMD_FLASH \<and> ?m 3 = NS2_SUBCMD_FLASH_READ \<and>
      (16::nat) \<le> 18 \<and> 16 + unat (?m 8) \<le> 18"
    by (simp add: buffer_of_def NS2_CMD_FLASH_def NS2_SUBCMD_FLASH_READ_def)
  have c: "fst (snd (switch2_receive_command ?env attached_controller ?m 18)) =
      switch2_handle_flash_read (kicked ?env attached_controller) (?m 8)
          (le32_to_cpu (ptr_add ?m 12)) (ptr_add ?m 16)"
    using receive_flash_accepted [of ?m 18 ?env attached_controller] hf by blast
  have sz: "?m 8 = NS2_FLASH_SIZE_FACTORY_TRIGGER_CALIB"
    by (simp add: buffer_of_def NS2_FLASH_SIZE_FACTORY_TRIGGER_CALIB_def)
  have ad: "le32_to_cpu (ptr_add ?m 12) = NS2_FLASH_ADDR_FACTORY_TRIGGER_CALIB"
    by (simp add: buffer_of_def ptr_add_def le32_to_cpu_def
        NS2_FLASH_ADDR_FACTORY_TRIGGER_CALIB_def)
  have d: "ptr_add ?m 16 0 \<noteq> 0xFF" "ptr_add ?m 16 1 \<noteq> 0xFF" "ptr_add ?m 16 0 = 232"
    by (simp_all add: ptr_add_def buffer_of_def)
  show ?thesis
    unfolding c sz ad flash_read_factory_trigger [OF d(1) d(2)] by (rule d(3))
qed

section \<open>The rumble encoder\<close>

text \<open>Loads and stores on the storage of the union.\<close>

lemma bit_store_field:
  "bit (store_field off n w v) i =
     (if off \<le> i \<and> i < off + n then i < 48 \<and> bit v (i - off) else bit w i)"
  by (auto simp add: store_field_def bit_simps dest: bit_imp_le_length)

lemma load_same_16:
  "off + 16 \<le> 48 \<Longrightarrow>
   (ucast (drop_bit off (store_field off 16 w (ucast (v::u16)))) :: u16) = v"
  by (rule bit_word_eqI) (auto simp add: bit_simps bit_store_field)


lemma load_other_16:
  "off' + 16 \<le> off \<or> off + n \<le> off' \<Longrightarrow>
   (ucast (drop_bit off' (store_field off n w v)) :: u16) = ucast (drop_bit off' w)"
  by (rule bit_word_eqI) (auto simp add: bit_simps bit_store_field)


lemma sd_set_error:
  "error (union_sd (set_error e w)) = e"
  "amplitude (union_sd (set_error e w)) = amplitude (union_sd w)"
  using load_same_16 [of 0 w e] load_other_16 [of 16 0 16 w "ucast e"]
  by (simp_all add: union_sd_def set_error_def)

lemma sd_set_amplitude:
  "amplitude (union_sd (set_amplitude a w)) = a"
  "error (union_sd (set_amplitude a w)) = error (union_sd w)"
  using load_same_16 [of 16 w a] load_other_16 [of 0 16 16 w "ucast a"]
  by (simp_all add: union_sd_def set_amplitude_def)



lemma play_effect_fields:
  "rumble_work_pending (switch2_play_effect ns2 strong weak)"
  "ctlr_type (switch2_play_effect ns2 strong weak) = ctlr_type ns2"
  "hdev (switch2_play_effect ns2 strong weak) = hdev ns2"
  by (simp_all add: switch2_play_effect_def Let_def)

text \<open>For a GameCube controller a request stores the amplitude and leaves the error.\<close>

lemma play_effect_gc:
  assumes "ctlr_type ns2 = NS2_CTLR_TYPE_GC"
  shows "error (rumble_sd (switch2_play_effect ns2 strong weak)) = error (rumble_sd ns2)"
    and "amplitude (rumble_sd (switch2_play_effect ns2 strong weak)) =
      max strong (drop_bit 1 weak)"
  using assms by (simp_all add: switch2_play_effect_def Let_def rumble_sd_def sd_set_amplitude)


lemma rumble_work_fields:
  "ctlr_type (fst (switch2_rumble_work interval ns2 ms ok)) = ctlr_type ns2"
  "hdev (fst (switch2_rumble_work interval ns2 ms ok)) = hdev ns2"
  by (simp_all add: switch2_rumble_work_def Let_def)














section \<open>The error accumulator of the GameCube rumble\<close>

lemma unat_u16_le: "unat (w::u16) \<le> 65535"
  using unsigned_less [of w, where ?'a = nat] by simp

lemma unat_u16_max_minus: "unat (U16_MAX - (a::u16)) = 65535 - unat a"
proof -
  have "a \<le> U16_MAX"
    using unat_u16_le [of a] by (simp add: U16_MAX_def word_le_nat_alt)
  then have "unat (U16_MAX - a) = unat U16_MAX - unat a" by (rule unat_sub)
  then show ?thesis by (simp add: U16_MAX_def)
qed

text \<open>The two updates of the accumulator, read as natural numbers: neither wraps.\<close>

lemma erm_add_exact:
  assumes "(e::u16) < a"
  shows "unat (e + (U16_MAX - a)) = unat e + (65535 - unat a)"
    and "unat (e + (U16_MAX - a)) \<le> 65534"
proof -
  have lt: "unat e < unat a" using assms by (simp add: word_less_nat_alt)
  have a: "unat a \<le> 65535" by (rule unat_u16_le)
  have "unat e + unat (U16_MAX - a) < 2 ^ LENGTH(16)"
    using lt a by (simp add: unat_u16_max_minus)
  then have "unat (e + (U16_MAX - a)) = unat e + unat (U16_MAX - a)"
    by (simp only: unat_add_lem [THEN iffD1])
  then show "unat (e + (U16_MAX - a)) = unat e + (65535 - unat a)"
    by (simp add: unat_u16_max_minus)
  then show "unat (e + (U16_MAX - a)) \<le> 65534"
    using lt a by simp
qed

lemma erm_sub_exact:
  assumes "\<not> (e::u16) < a"
  shows "unat (e - a) = unat e - unat a" and "unat a \<le> unat e"
proof -
  have le: "a \<le> e" using assms by simp
  then show "unat (e - a) = unat e - unat a" by (rule unat_sub)
  from le show "unat a \<le> unat e" by (simp add: word_le_nat_alt)
qed

lemma rumble_work_gc_error:
  assumes "ctlr_type ns2 = NS2_CTLR_TYPE_GC"
  shows "error (rumble_sd (fst (switch2_rumble_work interval ns2 ms True))) =
     (if amplitude (rumble_sd ns2) = 0 then 0
      else if error (rumble_sd ns2) < amplitude (rumble_sd ns2)
        then error (rumble_sd ns2) + (U16_MAX - amplitude (rumble_sd ns2))
        else error (rumble_sd ns2) - amplitude (rumble_sd ns2))"
    and "amplitude (rumble_sd (fst (switch2_rumble_work interval ns2 ms True))) =
      amplitude (rumble_sd ns2)"
  using assms by (simp_all add: switch2_rumble_work_def Let_def rumble_sd_def sd_set_error)

text \<open>After a run of the work the error is at most 65534, whatever it was before.\<close>

lemma rumble_work_error_after:
  assumes "ctlr_type ns2 = NS2_CTLR_TYPE_GC"
  shows "unat (error (rumble_sd (fst (switch2_rumble_work interval ns2 ms True)))) \<le> 65534"
proof -
  let ?e = "error (rumble_sd ns2)" and ?a = "amplitude (rumble_sd ns2)"
  have sub: "unat (?e - ?a) \<le> 65534" if "?a \<noteq> 0" "\<not> ?e < ?a"
  proof -
    from that(1) have "unat ?a \<noteq> 0" by (simp add: unat_eq_0)
    then show ?thesis
      using erm_sub_exact [OF that(2)] unat_u16_le [of ?e] by simp
  qed
  have "unat (if ?a = 0 then 0 else if ?e < ?a then ?e + (U16_MAX - ?a) else ?e - ?a) \<le> 65534"
    using erm_add_exact(2) [of ?e ?a] sub by (cases "?a = 0"; cases "?e < ?a") simp_all
  then show ?thesis
    by (simp only: rumble_work_gc_error(1) [OF assms])
qed

lemma rumble_work_error_bound:
  assumes "ctlr_type ns2 = NS2_CTLR_TYPE_GC" "unat (error (rumble_sd ns2)) \<le> 65534"
  shows "unat (error (rumble_sd (fst (switch2_rumble_work interval ns2 ms ok)))) \<le> 65534"
proof (cases ok)
  case False
  then show ?thesis using assms(2) by (simp add: switch2_rumble_work_def)
next
  case True
  then show ?thesis using rumble_work_error_after [OF assms(1)] by simp
qed

lemma rumble_step_gc_invariant:
  assumes "ctlr_type ns2 = NS2_CTLR_TYPE_GC" "unat (error (rumble_sd ns2)) \<le> 65534"
  shows "ctlr_type (fst (rumble_step interval ns2 e)) = NS2_CTLR_TYPE_GC \<and>
         unat (error (rumble_sd (fst (rumble_step interval ns2 e)))) \<le> 65534"
proof (cases e)
  case (SetIntensity s w)
  then show ?thesis using assms by (simp add: play_effect_fields play_effect_gc)
next
  case (Tick t ok)
  let ?q = "ns2\<lparr>rumble_work_pending := False\<rparr>"
  have "ctlr_type ?q = NS2_CTLR_TYPE_GC" "unat (error (rumble_sd ?q)) \<le> 65534"
    using assms by (simp_all add: rumble_sd_def)
  then have "unat (error (rumble_sd (fst (switch2_rumble_work interval ?q t ok)))) \<le> 65534"
    by (rule rumble_work_error_bound)
  then show ?thesis
    using Tick assms by (simp add: Let_def rumble_work_fields)
qed

lemma rumble_run_gc_invariant:
  "ctlr_type ns2 = NS2_CTLR_TYPE_GC \<Longrightarrow> unat (error (rumble_sd ns2)) \<le> 65534 \<Longrightarrow>
   ctlr_type (fst (rumble_run interval ns2 evs)) = NS2_CTLR_TYPE_GC \<and>
   unat (error (rumble_sd (fst (rumble_run interval ns2 evs)))) \<le> 65534"
proof (induction evs arbitrary: ns2)
  case Nil
  then show ?case by simp
next
  case (Cons e evs)
  from Cons.prems have "ctlr_type (fst (rumble_step interval ns2 e)) = NS2_CTLR_TYPE_GC \<and>
      unat (error (rumble_sd (fst (rumble_step interval ns2 e)))) \<le> 65534"
    by (rule rumble_step_gc_invariant)
  then have "ctlr_type (fst (rumble_run interval (fst (rumble_step interval ns2 e)) evs)) =
        NS2_CTLR_TYPE_GC \<and>
      unat (error (rumble_sd (fst (rumble_run interval (fst (rumble_step interval ns2 e)) evs))))
        \<le> 65534"
    using Cons.IH by blast
  then show ?case by (simp add: Let_def)
qed

















end
